theory Spec2Isabelle
  imports Complex_Main "HOL-Library.Word"
begin

section \<open>JavaScript values as the handlers of server.js see them\<close>

text \<open>
  A JavaScript string is a sequence of 16-bit code units; \<open>length\<close>, \<open>trim\<close> and the
  regular expressions of the source all work on code units.
\<close>

type_synonym jschar = "16 word"
type_synonym jsstring = "jschar list"

definition ascii :: "string \<Rightarrow> jsstring" where
  "ascii s = map (\<lambda>c. of_char c) s"

text \<open>
  A JavaScript number is an IEEE double: NaN, the two infinities, or a finite value, which
  is a rational. The two zeros are one value here: the source only compares numbers,
  tests them for truthiness and clamps them, and both zeros behave alike there.
\<close>

datatype jsnum = NaN | NegInf | Fin rat | PosInf

text \<open>The result of \<open>JSON.parse\<close>. A missing property reads as \<open>undefined\<close>: \<open>None\<close>.\<close>

datatype json =
    JNull
  | JBool bool
  | JNum jsnum
  | JStr jsstring
  | JArr "json list"
  | JObj "(jsstring \<times> json) list"

type_synonym jsval = "json option"

datatype exn =
    Error jsstring
  | TypeError jsstring
  | ReferenceError jsstring

fun message :: "exn \<Rightarrow> jsstring" where
  "message (Error m) = m"
| "message (TypeError m) = m"
| "message (ReferenceError m) = m"

definition thenDo :: "exn + 'a \<Rightarrow> ('a \<Rightarrow> exn + 'b) \<Rightarrow> exn + 'b" where
  "thenDo m f = (case m of Inl e \<Rightarrow> Inl e | Inr x \<Rightarrow> f x)"

text \<open>Running a list of computations from left to right, stopping at the first throw.\<close>

fun sequence :: "(exn + 'a) list \<Rightarrow> exn + 'a list" where
  "sequence [] = Inr []"
| "sequence (m # ms) =
     (case m of
        Inl e \<Rightarrow> Inl e
      | Inr y \<Rightarrow> (case sequence ms of Inl e \<Rightarrow> Inl e | Inr ys \<Rightarrow> Inr (y # ys)))"

definition mapM :: "('a \<Rightarrow> exn + 'b) \<Rightarrow> 'a list \<Rightarrow> exn + 'b list" where
  "mapM f xs = sequence (map f xs)"

subsection \<open>Property access\<close>

text \<open>
  \<open>JSON.parse\<close> keeps the last of several members with the same key. Reading a property
  of \<open>null\<close> or \<open>undefined\<close> throws a TypeError (the message is V8's); reading one of the
  property names this program uses from a number, a boolean, a string or an array finds
  nothing, neither on the value nor on its prototype.
\<close>

definition own_property :: "(jsstring \<times> json) list \<Rightarrow> jsstring \<Rightarrow> jsval" where
  "own_property kvs k = map_of (rev kvs) k"

definition cannot_read :: "string \<Rightarrow> jsstring \<Rightarrow> jsstring" where
  "cannot_read what k =
     ascii ''Cannot read properties of '' @ ascii what @ ascii '' (reading '' @
     [0x27] @ k @ [0x27] @ ascii '')''"

fun getProp :: "jsval \<Rightarrow> jsstring \<Rightarrow> exn + jsval" where
  "getProp None k = Inl (TypeError (cannot_read ''undefined'' k))"
| "getProp (Some JNull) k = Inl (TypeError (cannot_read ''null'' k))"
| "getProp (Some (JObj kvs)) k = Inr (own_property kvs k)"
| "getProp (Some v) k = Inr None"

text \<open>
  \<open>const { k } = v\<close>: the same reading, but V8 words the error differently; \<open>source\<close>
  is the text of the expression that is destructured.
\<close>

definition cannot_destructure :: "jsstring \<Rightarrow> string \<Rightarrow> string \<Rightarrow> jsstring" where
  "cannot_destructure k source what =
     ascii ''Cannot destructure property '' @ [0x27] @ k @ [0x27] @ ascii '' of '' @
     [0x27] @ ascii source @ [0x27] @ ascii '' as it is '' @ ascii what @ ascii ''.''"

fun destructure :: "string \<Rightarrow> jsval \<Rightarrow> jsstring \<Rightarrow> exn + jsval" where
  "destructure source None k = Inl (TypeError (cannot_destructure k source ''undefined''))"
| "destructure source (Some JNull) k = Inl (TypeError (cannot_destructure k source ''null''))"
| "destructure source (Some v) k = getProp (Some v) k"

subsection \<open>Truthiness, \<open>||\<close>, \<open>Array.isArray\<close>\<close>

fun num_truthy :: "jsnum \<Rightarrow> bool" where
  "num_truthy NaN = False"
| "num_truthy (Fin q) = (q \<noteq> 0)"
| "num_truthy n = True"

fun truthy :: "jsval \<Rightarrow> bool" where
  "truthy None = False"
| "truthy (Some JNull) = False"
| "truthy (Some (JBool b)) = b"
| "truthy (Some (JNum n)) = num_truthy n"
| "truthy (Some (JStr s)) = (s \<noteq> [])"
| "truthy (Some v) = True"

text \<open>\<open>v || d\<close> with a literal \<open>d\<close>.\<close>

definition or_else :: "jsval \<Rightarrow> json \<Rightarrow> json" where
  "or_else v d = (if truthy v then the v else d)"

definition num_or :: "jsnum \<Rightarrow> jsnum \<Rightarrow> jsnum" where
  "num_or n d = (if num_truthy n then n else d)"

fun isArray :: "jsval \<Rightarrow> bool" where
  "isArray (Some (JArr xs)) = True"
| "isArray v = False"

subsection \<open>\<open>Math.max\<close> and \<open>Math.min\<close>\<close>

fun num_le :: "jsnum \<Rightarrow> jsnum \<Rightarrow> bool" where
  "num_le NaN b = False"
| "num_le a NaN = False"
| "num_le NegInf b = True"
| "num_le a PosInf = True"
| "num_le (Fin p) (Fin q) = (p \<le> q)"
| "num_le a b = False"

definition Math_max :: "jsnum \<Rightarrow> jsnum \<Rightarrow> jsnum" where
  "Math_max a b = (if a = NaN \<or> b = NaN then NaN else if num_le a b then b else a)"

definition Math_min :: "jsnum \<Rightarrow> jsnum \<Rightarrow> jsnum" where
  "Math_min a b = (if a = NaN \<or> b = NaN then NaN else if num_le a b then a else b)"

subsection \<open>\<open>String(v)\<close> and \<open>Number(v)\<close> of a parsed value\<close>

text \<open>
  The digits that \<open>Number.prototype.toString\<close> prints for a positive finite double and
  the number that a string denotes (\<open>StringToNumber\<close>) are the engine's; they are
  parameters here, and every theorem below holds whatever they are.
\<close>

type_synonym numfmt = "rat \<Rightarrow> jsstring"
type_synonym strnum = "jsstring \<Rightarrow> jsnum"

fun NumberToString :: "numfmt \<Rightarrow> jsnum \<Rightarrow> jsstring" where
  "NumberToString fmt NaN = ascii ''NaN''"
| "NumberToString fmt PosInf = ascii ''Infinity''"
| "NumberToString fmt NegInf = ascii ''-Infinity''"
| "NumberToString fmt (Fin q) =
     (if q = 0 then ascii ''0''
      else if q < 0 then 0x2D # fmt (- q)
      else fmt q)"

fun join :: "jsstring \<Rightarrow> jsstring list \<Rightarrow> jsstring" where
  "join sep [] = []"
| "join sep [s] = s"
| "join sep (s # ss) = s @ sep @ join sep ss"

text \<open>
  \<open>ToString\<close> of a parsed value. An array prints as its elements joined by commas, with
  \<open>null\<close> elements printed as nothing. An object prints as \<open>[object Object]\<close> through
  \<open>Object.prototype.toString\<close>, unless it has a member of its own called \<open>toString\<close>:
  that member is not callable, \<open>valueOf\<close> does not return a primitive either, and the
  conversion throws.
\<close>

fun ToString :: "numfmt \<Rightarrow> json \<Rightarrow> exn + jsstring" where
  "ToString fmt JNull = Inr (ascii ''null'')"
| "ToString fmt (JBool b) = Inr (if b then ascii ''true'' else ascii ''false'')"
| "ToString fmt (JNum n) = Inr (NumberToString fmt n)"
| "ToString fmt (JStr s) = Inr s"
| "ToString fmt (JArr xs) =
     (case sequence (map (\<lambda>x. if x = JNull then Inr [] else ToString fmt x) xs) of
        Inl e \<Rightarrow> Inl e
      | Inr ss \<Rightarrow> Inr (join (ascii '','') ss))"
| "ToString fmt (JObj kvs) =
     (if own_property kvs (ascii ''toString'') \<noteq> None
      then Inl (TypeError (ascii ''Cannot convert object to primitive value''))
      else Inr (ascii ''[object Object]''))"

fun Number_of :: "numfmt \<Rightarrow> strnum \<Rightarrow> jsval \<Rightarrow> exn + jsnum" where
  "Number_of fmt s2n None = Inr NaN"
| "Number_of fmt s2n (Some JNull) = Inr (Fin 0)"
| "Number_of fmt s2n (Some (JBool b)) = Inr (Fin (if b then 1 else 0))"
| "Number_of fmt s2n (Some (JNum n)) = Inr n"
| "Number_of fmt s2n (Some (JStr s)) = Inr (s2n s)"
| "Number_of fmt s2n (Some v) =
     (case ToString fmt v of Inl e \<Rightarrow> Inl e | Inr s \<Rightarrow> Inr (s2n s))"

section \<open>Strings\<close>

text \<open>
  The class \<open>\s\<close> of a regular expression, which is also what \<open>trim\<close> strips: the
  white space and the line terminators of ECMAScript.
\<close>

definition isWhiteSpace :: "jschar \<Rightarrow> bool" where
  "isWhiteSpace c \<longleftrightarrow>
     (0x09 \<le> c \<and> c \<le> 0x0D) \<or> c = 0x20 \<or> c = 0xA0 \<or> c = 0x1680 \<or>
     (0x2000 \<le> c \<and> c \<le> 0x200A) \<or> c = 0x2028 \<or> c = 0x2029 \<or> c = 0x202F \<or>
     c = 0x205F \<or> c = 0x3000 \<or> c = 0xFEFF"

text \<open>\<open>s.trim()\<close>\<close>

definition trim :: "jsstring \<Rightarrow> jsstring" where
  "trim s = rev (dropWhile isWhiteSpace (rev (dropWhile isWhiteSpace s)))"

text \<open>\<open>s.includes(t)\<close>: \<open>t\<close> occurs in \<open>s\<close> as a contiguous piece.\<close>

fun startsWith :: "jsstring \<Rightarrow> jsstring \<Rightarrow> bool" where
  "startsWith s [] = True"
| "startsWith [] (d # t) = False"
| "startsWith (c # s) (d # t) = (c = d \<and> startsWith s t)"

fun str_includes :: "jsstring \<Rightarrow> jsstring \<Rightarrow> bool" where
  "str_includes [] t = (t = [])"
| "str_includes (c # s) t = (startsWith (c # s) t \<or> str_includes s t)"

section \<open>Sanitizing the reply of the language model (server.js, lines 288-339)\<close>

record category =
  cat_name :: jsstring
  cat_score :: jsnum
  cat_feedback :: jsstring

record keyword_entry =
  kw_keyword :: jsstring
  kw_count :: jsnum
  kw_importance :: jsstring
  kw_recommendation :: jsstring

record responseData =
  overallScore :: jsnum
  categories :: "category list"
  strengths :: "jsstring list"
  suggestions :: "jsstring list"
  jobTitleMatch :: jsstring
  keywordAnalysis :: "keyword_entry list"
  atsScore :: jsnum

text \<open>The elements of a value for which \<open>Array.isArray\<close> holds.\<close>

fun elems :: "jsval \<Rightarrow> json list" where
  "elems (Some (JArr xs)) = xs"
| "elems v = []"

text \<open>\<open>Math.min(Math.max(Number(v) || d, 0), hi)\<close>\<close>

definition clampScore :: "numfmt \<Rightarrow> strnum \<Rightarrow> jsval \<Rightarrow> rat \<Rightarrow> rat \<Rightarrow> exn + jsnum" where
  "clampScore fmt s2n v d hi =
     thenDo (Number_of fmt s2n v)
       (\<lambda>n. Inr (Math_min (Math_max (num_or n (Fin d)) (Fin 0)) (Fin hi)))"

text \<open>\<open>String(v || d)\<close>\<close>

definition stringOr :: "numfmt \<Rightarrow> jsval \<Rightarrow> string \<Rightarrow> exn + jsstring" where
  "stringOr fmt v d = ToString fmt (or_else v (JStr (ascii d)))"

text \<open>The callback of \<open>result.categories.map\<close>.\<close>

definition sanitizeCategory :: "numfmt \<Rightarrow> strnum \<Rightarrow> json \<Rightarrow> exn + category" where
  "sanitizeCategory fmt s2n cat =
     thenDo (getProp (Some cat) (ascii ''name'')) (\<lambda>n.
     thenDo (stringOr fmt n ''Uncategorized'') (\<lambda>name.
     thenDo (getProp (Some cat) (ascii ''score'')) (\<lambda>s.
     thenDo (clampScore fmt s2n s 5 10) (\<lambda>score.
     thenDo (getProp (Some cat) (ascii ''feedback'')) (\<lambda>f.
     thenDo (stringOr fmt f ''No specific feedback provided'') (\<lambda>feedback.
     Inr \<lparr>cat_name = name, cat_score = score, cat_feedback = feedback\<rparr>))))))"

definition defaultCategories :: "category list" where
  "defaultCategories =
     [\<lparr>cat_name = ascii ''General Assessment'', cat_score = Fin 5,
       cat_feedback =
         ascii ''Comprehensive analysis could not be generated. Please try again.''\<rparr>]"

definition sanitizeCategories :: "numfmt \<Rightarrow> strnum \<Rightarrow> jsval \<Rightarrow> exn + category list" where
  "sanitizeCategories fmt s2n v =
     (if isArray v then mapM (sanitizeCategory fmt s2n) (elems v)
      else Inr defaultCategories)"

text \<open>\<open>Array.isArray(v) ? v.map(s => String(s)).filter(s => s.length > 0) : d\<close>\<close>

definition sanitizeStrings :: "numfmt \<Rightarrow> jsval \<Rightarrow> jsstring list \<Rightarrow> exn + jsstring list" where
  "sanitizeStrings fmt v d =
     (if isArray v
      then thenDo (mapM (ToString fmt) (elems v))
             (\<lambda>ss. Inr (filter (\<lambda>s. length s > 0) ss))
      else Inr d)"

definition shortStrengths :: "jsstring list" where
  "shortStrengths = [ascii ''Strong foundational content'', ascii ''Good structure'']"

definition shortSuggestions :: "jsstring list" where
  "shortSuggestions =
     [ascii ''Add more quantifiable achievements'',
      ascii ''Include relevant keywords for your industry'']"

definition fallbackSuggestions :: "jsstring list" where
  "fallbackSuggestions =
     [ascii ''Use more action verbs (e.g., 'managed', 'developed', 'implemented')'',
      ascii ''Quantify achievements with numbers and metrics'',
      ascii ''Include relevant industry keywords'',
      ascii ''Keep resume to 1-2 pages maximum'',
      ascii ''Use consistent formatting throughout'']"

definition fallbackStrengths :: "jsstring list" where
  "fallbackStrengths =
     [ascii ''Clear section organization'',
      ascii ''Relevant experience included'',
      ascii ''Professional presentation'']"

text \<open>
  \<open>["high", "medium", "low"].includes(v) ? v : "medium"\<close>: \<open>includes\<close> compares with
  SameValueZero, so only a string equal to one of the three is found.
\<close>

definition importanceLevels :: "jsstring list" where
  "importanceLevels = [ascii ''high'', ascii ''medium'', ascii ''low'']"

fun sanitizeImportance :: "jsval \<Rightarrow> jsstring" where
  "sanitizeImportance (Some (JStr s)) =
     (if s \<in> set importanceLevels then s else ascii ''medium'')"
| "sanitizeImportance v = ascii ''medium''"

text \<open>The callback of \<open>result.keywordAnalysis.map\<close>.\<close>

definition sanitizeKeyword :: "numfmt \<Rightarrow> strnum \<Rightarrow> json \<Rightarrow> exn + keyword_entry" where
  "sanitizeKeyword fmt s2n kw =
     thenDo (getProp (Some kw) (ascii ''keyword'')) (\<lambda>k.
     thenDo (stringOr fmt k []) (\<lambda>keyword.
     thenDo (getProp (Some kw) (ascii ''count'')) (\<lambda>c.
     thenDo (Number_of fmt s2n c) (\<lambda>n.
     thenDo (getProp (Some kw) (ascii ''importance'')) (\<lambda>i.
     thenDo (getProp (Some kw) (ascii ''recommendation'')) (\<lambda>r.
     thenDo (stringOr fmt r ''Consider adding this keyword'') (\<lambda>recommendation.
     Inr \<lparr>kw_keyword = keyword,
          kw_count = Math_max (num_or n (Fin 0)) (Fin 0),
          kw_importance = sanitizeImportance i,
          kw_recommendation = recommendation\<rparr>)))))))"

definition sanitizeKeywords :: "numfmt \<Rightarrow> strnum \<Rightarrow> jsval \<Rightarrow> exn + keyword_entry list" where
  "sanitizeKeywords fmt s2n v =
     (if isArray v
      then thenDo (mapM (sanitizeKeyword fmt s2n) (elems v))
             (\<lambda>ks. Inr (filter (\<lambda>kw. kw_keyword kw \<noteq> []) ks))
      else Inr [])"

text \<open>
  The object literal \<open>responseData\<close>, its members evaluated in the order they are written,
  and the two replacements of an empty list that follow it.
\<close>

definition buildResponseData :: "numfmt \<Rightarrow> strnum \<Rightarrow> json \<Rightarrow> exn + responseData" where
  "buildResponseData fmt s2n result =
     thenDo (getProp (Some result) (ascii ''overallScore'')) (\<lambda>v1.
     thenDo (clampScore fmt s2n v1 50 100) (\<lambda>overall.
     thenDo (getProp (Some result) (ascii ''categories'')) (\<lambda>v2.
     thenDo (sanitizeCategories fmt s2n v2) (\<lambda>cats.
     thenDo (getProp (Some result) (ascii ''strengths'')) (\<lambda>v3.
     thenDo (sanitizeStrings fmt v3 shortStrengths) (\<lambda>strs.
     thenDo (getProp (Some result) (ascii ''suggestions'')) (\<lambda>v4.
     thenDo (sanitizeStrings fmt v4 shortSuggestions) (\<lambda>sugs.
     thenDo (getProp (Some result) (ascii ''jobTitleMatch'')) (\<lambda>v5.
     thenDo (stringOr fmt v5 ''Professional'') (\<lambda>job.
     thenDo (getProp (Some result) (ascii ''keywordAnalysis'')) (\<lambda>v6.
     thenDo (sanitizeKeywords fmt s2n v6) (\<lambda>kws.
     thenDo (getProp (Some result) (ascii ''atsScore'')) (\<lambda>v7.
     thenDo (clampScore fmt s2n v7 60 100) (\<lambda>ats.
     Inr \<lparr>overallScore = overall, categories = cats, strengths = strs,
          suggestions = sugs, jobTitleMatch = job, keywordAnalysis = kws,
          atsScore = ats\<rparr>))))))))))))))"

definition ensureData :: "responseData \<Rightarrow> responseData" where
  "ensureData r =
     (let r1 = (if length (suggestions r) = 0
                then r\<lparr>suggestions := fallbackSuggestions\<rparr> else r)
      in if length (strengths r1) = 0
         then r1\<lparr>strengths := fallbackStrengths\<rparr> else r1)"

definition sanitize :: "numfmt \<Rightarrow> strnum \<Rightarrow> json \<Rightarrow> exn + responseData" where
  "sanitize fmt s2n result =
     thenDo (buildResponseData fmt s2n result) (\<lambda>r. Inr (ensureData r))"

text \<open>A number between two finite bounds.\<close>

fun in_range :: "rat \<Rightarrow> rat \<Rightarrow> jsnum \<Rightarrow> bool" where
  "in_range lo hi (Fin q) = (lo \<le> q \<and> q \<le> hi)"
| "in_range lo hi n = False"

text \<open>A number that is at least 0; \<open>Infinity\<close> is one.\<close>

fun nonneg :: "jsnum \<Rightarrow> bool" where
  "nonneg (Fin q) = (0 \<le> q)"
| "nonneg PosInf = True"
| "nonneg n = False"

text \<open>
  A parsed value in which no object has a member of its own called \<open>toString\<close>:
  \<open>String\<close> and \<open>Number\<close> do not throw on such a value.
\<close>

fun plain :: "json \<Rightarrow> bool" where
  "plain (JArr xs) = (\<forall>x \<in> set xs. plain x)"
| "plain (JObj kvs) =
     (own_property kvs (ascii ''toString'') = None \<and> (\<forall>kv \<in> set kvs. plain (snd kv)))"
| "plain v = True"

section \<open>The file name of a generated document (server.js, lines 478-484 and 1022-1035)\<close>

definition isUpper :: "jschar \<Rightarrow> bool" where
  "isUpper c \<longleftrightarrow> 0x41 \<le> c \<and> c \<le> 0x5A"

definition isLower :: "jschar \<Rightarrow> bool" where
  "isLower c \<longleftrightarrow> 0x61 \<le> c \<and> c \<le> 0x7A"

definition isDigit :: "jschar \<Rightarrow> bool" where
  "isDigit c \<longleftrightarrow> 0x30 \<le> c \<and> c \<le> 0x39"

text \<open>\<open>s.replace(/[^a-zA-Z0-9\s]/g, '')\<close>: every code unit outside the class is dropped.\<close>

definition removeSpecial :: "jsstring \<Rightarrow> jsstring" where
  "removeSpecial s = filter (\<lambda>c. isLower c \<or> isUpper c \<or> isDigit c \<or> isWhiteSpace c) s"

text \<open>
  \<open>s.replace(/\s+/g, '-')\<close>: every maximal run of white space becomes one hyphen
  (code unit \<open>0x2D\<close>).
\<close>

function hyphenate :: "jsstring \<Rightarrow> jsstring" where
  "hyphenate [] = []"
| "hyphenate (c # cs) =
     (if isWhiteSpace c then 0x2D # hyphenate (dropWhile isWhiteSpace cs)
      else c # hyphenate cs)"
  by pat_completeness auto
termination
  by (relation "measure length") (auto simp: length_dropWhile_le less_Suc_eq_le)

text \<open>
  \<open>s.toLowerCase()\<close>. On a string of ASCII code units it turns each capital letter into
  its small letter and leaves the rest; what it does to other strings is the engine's
  Unicode case mapping, a parameter here.
\<close>

definition toLowerCase :: "(jsstring \<Rightarrow> jsstring) \<Rightarrow> jsstring \<Rightarrow> jsstring" where
  "toLowerCase unicodeLower s =
     (if \<forall>c \<in> set s. c < 0x80
      then map (\<lambda>c. if isUpper c then c + 0x20 else c) s
      else unicodeLower s)"

definition slug :: "(jsstring \<Rightarrow> jsstring) \<Rightarrow> jsstring \<Rightarrow> jsstring" where
  "slug unicodeLower s = toLowerCase unicodeLower (hyphenate (removeSpecial s))"

text \<open>
  Calling \<open>replace\<close> on a value: a string has the method; a number, a boolean, an array
  or an object does not (a member of a parsed object is never a function), and the call
  throws.
\<close>

fun slugOf :: "(jsstring \<Rightarrow> jsstring) \<Rightarrow> string \<Rightarrow> jsval \<Rightarrow> exn + jsstring" where
  "slugOf unicodeLower what (Some (JStr s)) = Inr (slug unicodeLower s)"
| "slugOf unicodeLower what v = Inl (TypeError (ascii what @ ascii '' is not a function''))"

text \<open>
  POST /api/generate-doc, after the check that \<open>resumeData\<close> is truthy:
  \<^verbatim>\<open>let finalFileName = "resume"; if (resumeData.name) { finalFileName = ... }\<close>
\<close>

definition docFileName :: "(jsstring \<Rightarrow> jsstring) \<Rightarrow> json \<Rightarrow> exn + jsstring" where
  "docFileName unicodeLower resumeData =
     thenDo (getProp (Some resumeData) (ascii ''name'')) (\<lambda>name.
       if truthy name then slugOf unicodeLower ''resumeData.name.replace'' name
       else Inr (ascii ''resume''))"

text \<open>
  POST /api/generate-pdf:
  \<^verbatim>\<open>if (resumeData && resumeData.name) {...} else if (fileName) {...}\<close>
\<close>

definition pdfFileName :: "(jsstring \<Rightarrow> jsstring) \<Rightarrow> jsval \<Rightarrow> jsval \<Rightarrow> exn + jsstring" where
  "pdfFileName unicodeLower fileName resumeData =
     thenDo (if truthy resumeData then getProp resumeData (ascii ''name'')
             else Inr resumeData) (\<lambda>name.
       if truthy name then slugOf unicodeLower ''resumeData.name.replace'' name
       else if truthy fileName then slugOf unicodeLower ''fileName.replace'' fileName
       else Inr (ascii ''resume''))"

text \<open>The value of the \<open>Content-Disposition\<close> header.\<close>

definition contentDisposition :: "jsstring \<Rightarrow> string \<Rightarrow> jsstring" where
  "contentDisposition finalFileName ext =
     ascii ''attachment; filename='' @ [0x22] @ finalFileName @ ascii ext @ [0x22]"

text \<open>A code unit that is a small ASCII letter, a digit or a hyphen.\<close>

definition isFileNameChar :: "jschar \<Rightarrow> bool" where
  "isFileNameChar c \<longleftrightarrow> isLower c \<or> isDigit c \<or> c = 0x2D"

section \<open>What the libraries, the file system and the language model answer\<close>

text \<open>
  The handlers call libraries (pdf-parse, pdftotextjs, tesseract.js, docx-parser), the
  file system, the Groq API and \<open>JSON.parse\<close>. Their answers are the fields of a
  \<open>world\<close>; a call that throws or rejects answers \<open>Inl\<close>.
  \<^item> \<open>tesseract_recognize\<close> stands for the whole sequence from \<open>createWorker\<close> to
    \<open>worker.terminate\<close>: none of these calls is guarded, so the first that throws ends
    \<open>processPdf\<close>.
  \<^item> \<open>readTextFile\<close> is \<open>readFileSync\<close> with the encoding \<open>utf-8\<close>, which answers a
    string instead of a buffer.
  \<^item> \<open>parseDocx\<close> answers the message of the error it reports, or the data it hands to
    the callback, which may be missing.
  \<^item> \<open>groq_content\<close> answers the message of what goes wrong inside the \<open>try\<close> of
    \<open>callGroq\<close> before the check of the content, or the content of the first choice
    (empty when there is none).
  \<^item> \<open>unlinkSync_error\<close> is the error with which \<open>unlinkSync\<close> refuses to delete a file,
    if it does.
\<close>

type_synonym buffer = "8 word list"

record world =
  readFileSync :: "jsstring \<Rightarrow> exn + buffer"
  pdfParse :: "buffer \<Rightarrow> exn + jsstring"
  pdftotext_getText :: "jsstring \<Rightarrow> exn + jsstring"
  tesseract_recognize :: "jsstring \<Rightarrow> exn + jsstring"
  parseDocx :: "jsstring \<Rightarrow> jsstring + jsstring option"
  readTextFile :: "jsstring \<Rightarrow> exn + jsstring"
  groq_content :: "jsstring \<Rightarrow> jsstring + jsstring"
  JSON_parse :: "jsstring \<Rightarrow> json option"
  unlinkSync_error :: "jsstring \<Rightarrow> exn option"

section \<open>Extracting the text of a PDF (server.js, lines 120-163)\<close>

text \<open>\<open>text && text.trim().length > 50\<close>\<close>

definition usable :: "jsstring \<Rightarrow> bool" where
  "usable text \<longleftrightarrow> text \<noteq> [] \<and> length (trim text) > 50"

datatype extractor = PdfParse | PdfToText | Tesseract

text \<open>The last of the three attempts, and the error when it yields too little.\<close>

definition tryTesseract :: "world \<Rightarrow> jsstring \<Rightarrow> exn + jsstring" where
  "tryTesseract w filePath =
     (case tesseract_recognize w filePath of
        Inl e \<Rightarrow> Inl e
      | Inr text \<Rightarrow>
          if usable text then Inr text
          else Inl (Error (ascii ''PDF could not be processed by any method'')))"

text \<open>
  \<open>processPdf\<close> with the extractors it has invoked, in order. A rejection of \<open>pdfParse\<close>
  is turned into the empty text by its \<open>.catch\<close>, a throw of pdftotextjs is caught and
  logged; \<open>readFileSync\<close> and the OCR are not guarded. The outer \<open>catch\<close> logs the error
  and throws it again.
\<close>

definition processPdf :: "world \<Rightarrow> jsstring \<Rightarrow> (exn + jsstring) \<times> extractor list" where
  "processPdf w filePath =
     (case readFileSync w filePath of
        Inl e \<Rightarrow> (Inl e, [])
      | Inr dataBuffer \<Rightarrow>
          (let pdfText = (case pdfParse w dataBuffer of Inl err \<Rightarrow> [] | Inr t \<Rightarrow> t)
           in if usable pdfText then (Inr pdfText, [PdfParse])
              else
                (case pdftotext_getText w filePath of
                   Inl err \<Rightarrow> (tryTesseract w filePath, [PdfParse, PdfToText, Tesseract])
                 | Inr text \<Rightarrow>
                     if usable text then (Inr text, [PdfParse, PdfToText])
                     else (tryTesseract w filePath, [PdfParse, PdfToText, Tesseract]))))"

text \<open>
  The pipeline in the words of the specification: each extractor has an output for the
  file (none when it fails); the extractors are tried in the fixed order, the first
  output of trimmed length above 50 is returned and no later extractor is invoked; when
  no extractor has such an output, \<open>processPdf\<close> throws (\<open>None\<close>).
\<close>

fun outputOf :: "world \<Rightarrow> jsstring \<Rightarrow> extractor \<Rightarrow> jsstring option" where
  "outputOf w filePath PdfParse =
     (case readFileSync w filePath of
        Inl e \<Rightarrow> None
      | Inr dataBuffer \<Rightarrow> (case pdfParse w dataBuffer of Inl e \<Rightarrow> None | Inr t \<Rightarrow> Some t))"
| "outputOf w filePath PdfToText =
     (case pdftotext_getText w filePath of Inl e \<Rightarrow> None | Inr t \<Rightarrow> Some t)"
| "outputOf w filePath Tesseract =
     (case tesseract_recognize w filePath of Inl e \<Rightarrow> None | Inr t \<Rightarrow> Some t)"

fun produces :: "jsstring option \<Rightarrow> bool" where
  "produces None = False"
| "produces (Some t) = (length (trim t) > 50)"

fun firstProducing ::
  "world \<Rightarrow> jsstring \<Rightarrow> extractor list \<Rightarrow> extractor list \<Rightarrow> jsstring option \<times> extractor list"
where
  "firstProducing w filePath tried [] = (None, tried)"
| "firstProducing w filePath tried (x # xs) =
     (if produces (outputOf w filePath x) then (outputOf w filePath x, tried @ [x])
      else firstProducing w filePath (tried @ [x]) xs)"

definition processPdf_spec :: "world \<Rightarrow> jsstring \<Rightarrow> jsstring option \<times> extractor list" where
  "processPdf_spec w filePath = firstProducing w filePath [] [PdfParse, PdfToText, Tesseract]"

text \<open>What \<open>processPdf\<close> returned, if it did, and what it invoked.\<close>

fun returned :: "(exn + jsstring) \<times> extractor list \<Rightarrow> jsstring option \<times> extractor list" where
  "returned (Inl e, xs) = (None, xs)"
| "returned (Inr t, xs) = (Some t, xs)"

section \<open>Responses\<close>

text \<open>
  What a handler sends: \<open>res.status(n).json(v)\<close>, the successful answer of the feedback
  handler \<open>{success: true, data: responseData, metadata: {processedLength, ...}}\<close>
  (status 200; the date in the metadata is left out), or a file with its
  \<open>Content-Type\<close> and \<open>Content-Disposition\<close>.
\<close>

datatype response =
    Json nat json
  | FeedbackOk responseData nat
  | Attachment jsstring jsstring buffer

fun status :: "response \<Rightarrow> nat" where
  "status (Json n v) = n"
| "status (FeedbackOk d n) = 200"
| "status (Attachment t d b) = 200"

definition failure :: "string \<Rightarrow> json" where
  "failure msg = JObj [(ascii ''success'', JBool False), (ascii ''error'', JStr (ascii msg))]"

definition failureWith :: "string \<Rightarrow> jsstring \<Rightarrow> json" where
  "failureWith msg detail =
     JObj [(ascii ''success'', JBool False), (ascii ''error'', JStr (ascii msg @ detail))]"

definition errorBody :: "jsstring \<Rightarrow> json" where
  "errorBody msg = JObj [(ascii ''error'', JStr msg)]"

section \<open>POST /api/resume/feedback (server.js, lines 185-391)\<close>

text \<open>\<open>req.file\<close> as multer leaves it.\<close>

record upload =
  mimetype :: jsstring
  path :: jsstring

text \<open>\<open>callGroq\<close> (lines 73-108): whatever goes wrong is thrown again under a new message.\<close>

definition callGroq :: "world \<Rightarrow> jsstring \<Rightarrow> exn + jsstring" where
  "callGroq w userContent =
     (case groq_content w userContent of
        Inl m \<Rightarrow> Inl (Error (ascii ''Failed to call Groq API: '' @ m))
      | Inr content \<Rightarrow>
          if content = []
          then Inl (Error (ascii ''Failed to call Groq API: '' @
                           ascii ''Invalid response structure from Groq API''))
          else Inr content)"

definition processDocx :: "world \<Rightarrow> jsstring \<Rightarrow> exn + jsstring option" where
  "processDocx w filePath =
     (case parseDocx w filePath of
        Inl m \<Rightarrow> Inl (Error (ascii ''DOCX processing failed: '' @ m))
      | Inr data \<Rightarrow> Inr data)"

definition processTextFile :: "world \<Rightarrow> jsstring \<Rightarrow> exn + jsstring" where
  "processTextFile w filePath =
     (case readTextFile w filePath of
        Inl e \<Rightarrow> Inl (Error (ascii ''Text file processing failed: '' @ message e))
      | Inr s \<Rightarrow> Inr s)"

text \<open>The \<open>switch\<close> on \<open>req.file.mimetype\<close>; \<open>None\<close> is a text that is not there.\<close>

definition extractText :: "world \<Rightarrow> upload \<Rightarrow> exn + jsstring option" where
  "extractText w file =
     (if mimetype file = ascii ''application/pdf''
      then (case fst (processPdf w (path file)) of Inl e \<Rightarrow> Inl e | Inr t \<Rightarrow> Inr (Some t))
      else if mimetype file =
        ascii ''application/vnd.openxmlformats-officedocument.wordprocessingml.document''
      then processDocx w (path file)
      else if mimetype file = ascii ''text/plain''
      then (case processTextFile w (path file) of Inl e \<Rightarrow> Inl e | Inr t \<Rightarrow> Inr (Some t))
      else Inl (Error (ascii ''Unsupported file type'')))"

text \<open>\<open>!resumeText || resumeText.trim().length < 50\<close>\<close>

fun tooShort :: "jsstring option \<Rightarrow> bool" where
  "tooShort None = True"
| "tooShort (Some text) = (text = [] \<or> length (trim text) < 50)"

definition userContent :: "jsstring \<Rightarrow> jsstring" where
  "userContent resumeText =
     ascii ''Please analyze this resume and provide comprehensive feedback:'' @
     [0x0A, 0x0A] @ take 10000 resumeText"

text \<open>
  The body of the \<open>try\<close>: the response it sends or the error it throws, and the contents
  sent to the language model.
\<close>

definition analyze ::
  "numfmt \<Rightarrow> strnum \<Rightarrow> world \<Rightarrow> upload \<Rightarrow> (exn + response) \<times> jsstring list"
where
  "analyze fmt s2n w file =
     (case extractText w file of
        Inl e \<Rightarrow> (Inl e, [])
      | Inr resumeText \<Rightarrow>
          if tooShort resumeText
          then (Inl (Error (ascii
                  ''Resume text is too short or could not be extracted properly'')), [])
          else
            (let text = the resumeText; sent = userContent text
             in case callGroq w sent of
                  Inl e \<Rightarrow> (Inl e, [sent])
                | Inr content \<Rightarrow>
                    if content = []
                    then (Inl (Error (ascii ''Invalid response structure from AI service'')),
                          [sent])
                    else
                      (case JSON_parse w content of
                         None \<Rightarrow>
                           (Inl (Error (ascii ''Failed to parse AI response as JSON'')), [sent])
                       | Some result \<Rightarrow>
                           (case sanitize fmt s2n result of
                              Inl e \<Rightarrow> (Inl e, [sent])
                            | Inr responseData \<Rightarrow>
                                (Inr (FeedbackOk responseData (length text)), [sent])))))"

text \<open>The \<open>catch\<close>: the response chosen from the message of the error.\<close>

definition errorResponse :: "exn \<Rightarrow> response" where
  "errorResponse error =
     (if str_includes (message error) (ascii ''timeout'')
      then Json 504 (failure (''Analysis timeout. Please try again with a shorter resume '' @
                              ''or check your internet connection.''))
      else if str_includes (message error) (ascii ''JSON'') \<or>
              str_includes (message error) (ascii ''parse'')
      then Json 500 (failure ''Failed to process analysis results. Please try again.'')
      else if str_includes (message error) (ascii ''short'') \<or>
              str_includes (message error) (ascii ''extract'')
      then Json 400 (failure (''Could not extract sufficient text from the resume. '' @
                              ''Please ensure the file is readable and try again.''))
      else Json 500 (failureWith ''Failed to analyze resume: '' (message error)))"

text \<open>
  The \<open>finally\<close>, on the set of files that exist:
  \<^verbatim>\<open>if (filePath && existsSync(filePath)) { try { unlinkSync(filePath) } catch ... }\<close>
\<close>

definition cleanup :: "world \<Rightarrow> jsstring \<Rightarrow> jsstring set \<Rightarrow> jsstring set" where
  "cleanup w filePath files =
     (if filePath \<noteq> [] \<and> filePath \<in> files
      then (case unlinkSync_error w filePath of
              None \<Rightarrow> files - {filePath}
            | Some cleanupError \<Rightarrow> files)
      else files)"

record outcome =
  response :: response
  llmCalls :: "jsstring list"
  filesAfter :: "jsstring set"

definition feedbackHandler ::
  "numfmt \<Rightarrow> strnum \<Rightarrow> world \<Rightarrow> upload \<Rightarrow> jsstring set \<Rightarrow> outcome"
where
  "feedbackHandler fmt s2n w file files =
     (let (result, calls) = analyze fmt s2n w file
      in \<lparr>response = (case result of Inl error \<Rightarrow> errorResponse error | Inr sent \<Rightarrow> sent),
          llmCalls = calls,
          filesAfter = cleanup w (path file) files\<rparr>)"

text \<open>
  The route: \<open>validateFile\<close> answers 400 when there is no file; otherwise it only logs
  (its look at the first page of a PDF changes nothing) and the handler runs.
\<close>

definition feedbackRoute ::
  "numfmt \<Rightarrow> strnum \<Rightarrow> world \<Rightarrow> upload option \<Rightarrow> jsstring set \<Rightarrow> outcome"
where
  "feedbackRoute fmt s2n w file files =
     (case file of
        None \<Rightarrow> \<lparr>response = Json 400 (failure ''No file uploaded''), llmCalls = [],
                  filesAfter = files\<rparr>
      | Some f \<Rightarrow> feedbackHandler fmt s2n w f files)"

section \<open>POST /api/resume/generate (server.js, lines 1129-1192)\<close>








section \<open>POST /api/generate-pdf (server.js, lines 1017-1126)\<close>

text \<open>
  The names bound where the handler evaluates \<open>chromium.args\<close>: the parameters and
  variables of the handler, the bindings of the module, and the globals of Node.js that
  the file uses. \<open>chromium\<close> is not among them, nowhere declared and nowhere imported.
\<close>

definition handlerBindings :: "string list" where
  "handlerBindings = [''req'', ''res'', ''html'', ''fileName'', ''resumeData'', ''finalFileName'']"

definition moduleBindings :: "string list" where
  "moduleBindings =
     [''express'', ''cors'', ''fetch'', ''puppeteer'', ''multer'', ''pdfParse'',
      ''readFileSync'', ''existsSync'', ''mkdirSync'', ''unlinkSync'', ''docxParser'',
      ''createWorker'', ''pdftotext'', ''htmlToDocx'', ''app'', ''PORT'', ''UPLOAD_DIR'',
      ''MAX_FILE_SIZE'', ''storage'', ''fileFilter'', ''upload'', ''GROQ_API_KEY'', ''MODEL'',
      ''GROQ_API_URL'', ''callGroq'', ''isPdfTextBased'', ''processPdf'', ''processDocx'',
      ''processTextFile'', ''validateFile'', ''docx'', ''Document'', ''Paragraph'', ''TextRun'',
      ''HeadingLevel'', ''AlignmentType'', ''convertInchesToTwip'', ''createCleanHtmlForDocx'']"

definition nodeGlobals :: "string list" where
  "nodeGlobals =
     [''require'', ''module'', ''exports'', ''process'', ''console'', ''Date'', ''Error'',
      ''JSON'', ''Math'', ''Number'', ''String'', ''Array'', ''Promise'', ''encodeURIComponent'']"

definition resolve :: "string \<Rightarrow> exn + unit" where
  "resolve identifier =
     (if identifier \<in> set (handlerBindings @ moduleBindings @ nodeGlobals) then Inr ()
      else Inl (ReferenceError (ascii identifier @ ascii '' is not defined'')))"

text \<open>
  The body of the \<open>try\<close>. \<open>rendered\<close> is what puppeteer would make of the page, from
  \<open>launch\<close> to \<open>page.pdf\<close>, were it ever launched: the arguments of \<open>puppeteer.launch\<close>
  are evaluated first, and the first of them reads \<open>chromium\<close>.
\<close>

definition generatePdfTry ::
  "(jsstring \<Rightarrow> jsstring) \<Rightarrow> (jsval \<Rightarrow> exn + buffer) \<Rightarrow> jsval \<Rightarrow> exn + response"
where
  "generatePdfTry unicodeLower rendered body =
     thenDo (destructure ''req.body'' body (ascii ''html'')) (\<lambda>html.
     thenDo (destructure ''req.body'' body (ascii ''fileName'')) (\<lambda>fileName.
     thenDo (destructure ''req.body'' body (ascii ''resumeData'')) (\<lambda>resumeData.
     thenDo (pdfFileName unicodeLower fileName resumeData) (\<lambda>finalFileName.
     thenDo (resolve ''chromium'') (\<lambda>chromium.
     thenDo (rendered html) (\<lambda>pdfBuffer.
     Inr (Attachment (ascii ''application/pdf'')
            (contentDisposition finalFileName ''.pdf'') pdfBuffer)))))))"

definition generatePdfHandler ::
  "(jsstring \<Rightarrow> jsstring) \<Rightarrow> (jsval \<Rightarrow> exn + buffer) \<Rightarrow> jsval \<Rightarrow> response"
where
  "generatePdfHandler unicodeLower rendered body =
     (case generatePdfTry unicodeLower rendered body of
        Inl err \<Rightarrow> Json 500 (errorBody (ascii ''Failed to generate PDF''))
      | Inr sent \<Rightarrow> sent)"

section \<open>Sample inputs\<close>

text \<open>A text of sixty letters, and a world in which every library call fails.\<close>

definition sampleText :: jsstring where
  "sampleText = replicate 60 0x61"

definition failingWorld :: world where
  "failingWorld =
     \<lparr>readFileSync = (\<lambda>p. Inl (Error (ascii ''EACCES: permission denied''))),
      pdfParse = (\<lambda>b. Inl (Error (ascii ''Invalid PDF structure''))),
      pdftotext_getText = (\<lambda>p. Inl (Error (ascii ''pdftotext failed''))),
      tesseract_recognize = (\<lambda>p. Inl (Error (ascii ''worker failed''))),
      parseDocx = (\<lambda>p. Inl (ascii ''not a zip file'')),
      readTextFile = (\<lambda>p. Inl (Error (ascii ''EACCES: permission denied''))),
      groq_content = (\<lambda>c. Inl (ascii ''Groq API error 503: unavailable'')),
      JSON_parse = (\<lambda>s. None),
      unlinkSync_error = (\<lambda>p. None)\<rparr>"

definition pdfUpload :: upload where
  "pdfUpload = \<lparr>mimetype = ascii ''application/pdf'', path = ascii ''uploads/1-cv.pdf''\<rparr>"

definition textUpload :: upload where
  "textUpload = \<lparr>mimetype = ascii ''text/plain'', path = ascii ''uploads/2-cv.txt''\<rparr>"



section \<open>Properties of the sanitizer\<close>

subsection \<open>Throwing computations\<close>

lemma thenDo_Inr: "thenDo m f = Inr y \<longleftrightarrow> (\<exists>x. m = Inr x \<and> f x = Inr y)"
  by (cases m) (simp_all add: thenDo_def)

lemma sequence_map_Inr: "sequence (map Inr ys) = Inr ys"
  by (induction ys) simp_all

lemma sequence_Inr_D: "sequence ms = Inr ys \<Longrightarrow> ms = map Inr ys"
proof (induction ms arbitrary: ys)
  case Nil
  then show ?case by simp
next
  case (Cons m ms)
  from Cons.prems obtain y zs where "m = Inr y" "sequence ms = Inr zs" "ys = y # zs"
    by (auto split: sum.splits)
  with Cons.IH [of zs] show ?case by simp
qed

lemma sequence_Inr: "sequence ms = Inr ys \<longleftrightarrow> ms = map Inr ys"
  using sequence_Inr_D sequence_map_Inr by blast

lemma mapM_Inr: "mapM f xs = Inr ys \<longleftrightarrow> map f xs = map Inr ys"
  by (simp add: mapM_def sequence_Inr)

lemma mapM_Inr_set:
  assumes "mapM f xs = Inr ys" and "y \<in> set ys"
  shows "\<exists>x \<in> set xs. f x = Inr y"
proof -
  from assms(1) have "map f xs = map Inr ys" by (simp add: mapM_Inr)
  then have "Inr y \<in> set (map f xs)" using assms(2) by simp
  then show ?thesis by auto
qed

text \<open>The equations that evaluate the sanitizer on a concrete reply.\<close>

lemmas sanitize_eval =
  sanitize_def buildResponseData_def thenDo_def own_property_def clampScore_def
  num_or_def Math_max_def Math_min_def sanitizeCategories_def sanitizeCategory_def
  sanitizeStrings_def stringOr_def or_else_def sanitizeKeywords_def sanitizeKeyword_def
  ensureData_def mapM_def ascii_def

subsection \<open>Clamped scores\<close>

lemma clamp_in_range:
  "0 \<le> d \<Longrightarrow> d \<le> hi \<Longrightarrow>
   in_range 0 hi (Math_min (Math_max (num_or n (Fin d)) (Fin 0)) (Fin hi))"
  by (cases n) (auto simp: Math_min_def Math_max_def num_or_def)

lemma clampScore_range:
  "clampScore fmt s2n v d hi = Inr n \<Longrightarrow> 0 \<le> d \<Longrightarrow> d \<le> hi \<Longrightarrow> in_range 0 hi n"
  by (auto simp: clampScore_def thenDo_Inr clamp_in_range)

lemma sanitizeCategory_score:
  "sanitizeCategory fmt s2n cat = Inr c \<Longrightarrow> in_range 0 10 (cat_score c)"
  by (auto simp: sanitizeCategory_def thenDo_Inr dest!: clampScore_range)

lemma sanitizeCategories_score:
  assumes "sanitizeCategories fmt s2n v = Inr cs" and "c \<in> set cs"
  shows "in_range 0 10 (cat_score c)"
proof (cases "isArray v")
  case True
  with assms obtain x where "sanitizeCategory fmt s2n x = Inr c"
    by (auto simp: sanitizeCategories_def dest: mapM_Inr_set)
  then show ?thesis by (rule sanitizeCategory_score)
next
  case False
  with assms show ?thesis by (auto simp: sanitizeCategories_def defaultCategories_def)
qed

lemma ensureData_fields:
  "overallScore (ensureData r) = overallScore r"
  "atsScore (ensureData r) = atsScore r"
  "categories (ensureData r) = categories r"
  "keywordAnalysis (ensureData r) = keywordAnalysis r"
  "jobTitleMatch (ensureData r) = jobTitleMatch r"
  by (simp_all add: ensureData_def Let_def)

lemma sanitize_Inr:
  "sanitize fmt s2n result = Inr r \<longleftrightarrow>
   (\<exists>r0. buildResponseData fmt s2n result = Inr r0 \<and> r = ensureData r0)"
  by (auto simp: sanitize_def thenDo_Inr)

subsection \<open>When the sanitizer returns\<close>

lemma sequence_all_Inr:
  assumes "\<forall>m \<in> set ms. \<exists>y. m = Inr y"
  shows "\<exists>ys. sequence ms = Inr ys"
  using assms by (induction ms) auto

lemma mapM_returns:
  assumes "\<forall>x \<in> set xs. \<exists>y. f x = Inr y"
  shows "\<exists>ys. mapM f xs = Inr ys"
  unfolding mapM_def using assms by (intro sequence_all_Inr) auto

lemma ToString_plain: "plain v \<Longrightarrow> \<exists>s. ToString fmt v = Inr s"
proof (induction v)
  case (JArr xs)
  then have "\<forall>m \<in> set (map (\<lambda>x. if x = JNull then Inr [] else ToString fmt x) xs).
               \<exists>y. m = Inr y"
    by auto
  from sequence_all_Inr [OF this] show ?case by auto
qed simp_all

lemma own_property_mem: "own_property kvs k = Some v \<Longrightarrow> (k, v) \<in> set kvs"
  by (auto simp: own_property_def dest: map_of_SomeD)

lemma getProp_plain:
  assumes "plain j" and "j \<noteq> JNull"
  shows "\<exists>v. getProp (Some j) k = Inr v \<and> (\<forall>x. v = Some x \<longrightarrow> plain x)"
proof (cases j)
  case (JObj kvs)
  with assms show ?thesis by (auto dest!: own_property_mem)
qed (use assms in simp_all)

lemma Number_of_plain:
  assumes "\<forall>x. v = Some x \<longrightarrow> plain x"
  shows "\<exists>n. Number_of fmt s2n v = Inr n"
proof (cases v)
  case None
  then show ?thesis by simp
next
  case (Some j)
  with assms have "plain j" by simp
  from ToString_plain [OF this] obtain s where "ToString fmt j = Inr s" by blast
  with Some show ?thesis by (cases j) simp_all
qed

lemma clampScore_plain:
  "\<forall>x. v = Some x \<longrightarrow> plain x \<Longrightarrow> \<exists>n. clampScore fmt s2n v d hi = Inr n"
  using Number_of_plain [of v fmt s2n] by (auto simp: clampScore_def thenDo_def)

lemma stringOr_plain:
  assumes "\<forall>x. v = Some x \<longrightarrow> plain x"
  shows "\<exists>s. stringOr fmt v d = Inr s"
proof -
  have "plain (or_else v (JStr (ascii d)))"
    using assms by (cases v) (auto simp: or_else_def)
  then show ?thesis unfolding stringOr_def by (rule ToString_plain)
qed


lemma sanitizeCategory_plain:
  assumes "plain cat" and "cat \<noteq> JNull"
  shows "\<exists>c. sanitizeCategory fmt s2n cat = Inr c"
proof -
  from getProp_plain [OF assms] obtain n where
    n: "getProp (Some cat) (ascii ''name'') = Inr n" "\<forall>x. n = Some x \<longrightarrow> plain x" by blast
  from getProp_plain [OF assms] obtain s where
    s: "getProp (Some cat) (ascii ''score'') = Inr s" "\<forall>x. s = Some x \<longrightarrow> plain x" by blast
  from getProp_plain [OF assms] obtain f where
    f: "getProp (Some cat) (ascii ''feedback'') = Inr f" "\<forall>x. f = Some x \<longrightarrow> plain x" by blast
  from stringOr_plain [OF n(2)] obtain a where
    a: "stringOr fmt n ''Uncategorized'' = Inr a" by blast
  from clampScore_plain [OF s(2)] obtain b where
    b: "clampScore fmt s2n s 5 10 = Inr b" by blast
  from stringOr_plain [OF f(2)] obtain c where
    c: "stringOr fmt f ''No specific feedback provided'' = Inr c" by blast
  from n(1) s(1) f(1) a b c show ?thesis
    by (simp add: sanitizeCategory_def thenDo_def)
qed

lemma sanitizeKeyword_plain:
  assumes "plain kw" and "kw \<noteq> JNull"
  shows "\<exists>e. sanitizeKeyword fmt s2n kw = Inr e"
proof -
  from getProp_plain [OF assms] obtain k where
    k: "getProp (Some kw) (ascii ''keyword'') = Inr k" "\<forall>x. k = Some x \<longrightarrow> plain x" by blast
  from getProp_plain [OF assms] obtain c where
    c: "getProp (Some kw) (ascii ''count'') = Inr c" "\<forall>x. c = Some x \<longrightarrow> plain x" by blast
  from getProp_plain [OF assms] obtain i where
    i: "getProp (Some kw) (ascii ''importance'') = Inr i" by blast
  from getProp_plain [OF assms] obtain r where
    r: "getProp (Some kw) (ascii ''recommendation'') = Inr r" "\<forall>x. r = Some x \<longrightarrow> plain x"
    by blast
  from stringOr_plain [OF k(2)] obtain a where a: "stringOr fmt k [] = Inr a" by blast
  from Number_of_plain [OF c(2)] obtain b where b: "Number_of fmt s2n c = Inr b" by blast
  from stringOr_plain [OF r(2)] obtain d where
    d: "stringOr fmt r ''Consider adding this keyword'' = Inr d" by blast
  from k(1) c(1) i r(1) a b d show ?thesis
    by (simp add: sanitizeKeyword_def thenDo_def)
qed

lemma isArray_elems: "isArray v \<Longrightarrow> v = Some (JArr (elems v))"
  by (cases v rule: isArray.cases) simp_all

lemma sanitizeCategories_plain:
  assumes "\<forall>x. v = Some x \<longrightarrow> plain x" and "\<forall>xs. v = Some (JArr xs) \<longrightarrow> JNull \<notin> set xs"
  shows "\<exists>cs. sanitizeCategories fmt s2n v = Inr cs"
proof (cases "isArray v")
  case True
  from isArray_elems [OF True] assms
  have "\<forall>x \<in> set (elems v). plain x \<and> x \<noteq> JNull" by (metis plain.simps(1))
  then have "\<forall>x \<in> set (elems v). \<exists>y. sanitizeCategory fmt s2n x = Inr y"
    using sanitizeCategory_plain by blast
  from mapM_returns [OF this] True show ?thesis by (simp add: sanitizeCategories_def)
next
  case False
  then show ?thesis by (simp add: sanitizeCategories_def)
qed

lemma sanitizeKeywords_plain:
  assumes "\<forall>x. v = Some x \<longrightarrow> plain x" and "\<forall>xs. v = Some (JArr xs) \<longrightarrow> JNull \<notin> set xs"
  shows "\<exists>ks. sanitizeKeywords fmt s2n v = Inr ks"
proof (cases "isArray v")
  case True
  from isArray_elems [OF True] assms
  have "\<forall>x \<in> set (elems v). plain x \<and> x \<noteq> JNull" by (metis plain.simps(1))
  then have "\<forall>x \<in> set (elems v). \<exists>y. sanitizeKeyword fmt s2n x = Inr y"
    using sanitizeKeyword_plain by blast
  from mapM_returns [OF this] obtain es where
    "mapM (sanitizeKeyword fmt s2n) (elems v) = Inr es" by blast
  with True show ?thesis by (simp add: sanitizeKeywords_def thenDo_def)
next
  case False
  then show ?thesis by (simp add: sanitizeKeywords_def)
qed

lemma sanitizeStrings_plain:
  assumes "\<forall>x. v = Some x \<longrightarrow> plain x"
  shows "\<exists>ss. sanitizeStrings fmt v d = Inr ss"
proof (cases "isArray v")
  case True
  from isArray_elems [OF True] assms
  have "\<forall>x \<in> set (elems v). plain x" by (metis plain.simps(1))
  then have "\<forall>x \<in> set (elems v). \<exists>y. ToString fmt x = Inr y"
    using ToString_plain by blast
  from mapM_returns [OF this] obtain ys where
    "mapM (ToString fmt) (elems v) = Inr ys" by blast
  with True show ?thesis by (simp add: sanitizeStrings_def thenDo_def)
next
  case False
  then show ?thesis by (simp add: sanitizeStrings_def)
qed

lemma sanitize_returns:
  assumes "plain reply" and "reply \<noteq> JNull"
    and "\<forall>xs. getProp (Some reply) (ascii ''categories'') = Inr (Some (JArr xs)) \<longrightarrow>
           JNull \<notin> set xs"
    and "\<forall>xs. getProp (Some reply) (ascii ''keywordAnalysis'') = Inr (Some (JArr xs)) \<longrightarrow>
           JNull \<notin> set xs"
  shows "\<exists>r. sanitize fmt s2n reply = Inr r"
proof -
  note g = getProp_plain [OF assms(1,2)]
  from g obtain v1 where v1: "getProp (Some reply) (ascii ''overallScore'') = Inr v1"
    "\<forall>x. v1 = Some x \<longrightarrow> plain x" by blast
  from g obtain v2 where v2: "getProp (Some reply) (ascii ''categories'') = Inr v2"
    "\<forall>x. v2 = Some x \<longrightarrow> plain x" by blast
  from g obtain v3 where v3: "getProp (Some reply) (ascii ''strengths'') = Inr v3"
    "\<forall>x. v3 = Some x \<longrightarrow> plain x" by blast
  from g obtain v4 where v4: "getProp (Some reply) (ascii ''suggestions'') = Inr v4"
    "\<forall>x. v4 = Some x \<longrightarrow> plain x" by blast
  from g obtain v5 where v5: "getProp (Some reply) (ascii ''jobTitleMatch'') = Inr v5"
    "\<forall>x. v5 = Some x \<longrightarrow> plain x" by blast
  from g obtain v6 where v6: "getProp (Some reply) (ascii ''keywordAnalysis'') = Inr v6"
    "\<forall>x. v6 = Some x \<longrightarrow> plain x" by blast
  from g obtain v7 where v7: "getProp (Some reply) (ascii ''atsScore'') = Inr v7"
    "\<forall>x. v7 = Some x \<longrightarrow> plain x" by blast
  from clampScore_plain [OF v1(2)] obtain a where
    a: "clampScore fmt s2n v1 50 100 = Inr a" by blast
  from assms(3) v2(1) have "\<forall>xs. v2 = Some (JArr xs) \<longrightarrow> JNull \<notin> set xs" by simp
  from sanitizeCategories_plain [OF v2(2) this] obtain b where
    b: "sanitizeCategories fmt s2n v2 = Inr b" by blast
  from sanitizeStrings_plain [OF v3(2)] obtain c where
    c: "sanitizeStrings fmt v3 shortStrengths = Inr c" by blast
  from sanitizeStrings_plain [OF v4(2)] obtain d where
    d: "sanitizeStrings fmt v4 shortSuggestions = Inr d" by blast
  from stringOr_plain [OF v5(2)] obtain e where
    e: "stringOr fmt v5 ''Professional'' = Inr e" by blast
  from assms(4) v6(1) have "\<forall>xs. v6 = Some (JArr xs) \<longrightarrow> JNull \<notin> set xs" by simp
  from sanitizeKeywords_plain [OF v6(2) this] obtain f where
    f: "sanitizeKeywords fmt s2n v6 = Inr f" by blast
  from clampScore_plain [OF v7(2)] obtain h where
    h: "clampScore fmt s2n v7 60 100 = Inr h" by blast
  from v1(1) v2(1) v3(1) v4(1) v5(1) v6(1) v7(1) a b c d e f h show ?thesis
    by (simp add: sanitize_def buildResponseData_def thenDo_def)
qed

lemma built_scores_in_range:
  assumes "sanitize fmt s2n reply = Inr r"
  shows "in_range 0 100 (overallScore r) \<and> in_range 0 100 (atsScore r) \<and>
         (\<forall>c \<in> set (categories r). in_range 0 10 (cat_score c))"
proof -
  from assms obtain r0 where b: "buildResponseData fmt s2n reply = Inr r0"
    and r: "r = ensureData r0" by (auto simp: sanitize_Inr)
  from b obtain v1 v2 v7 where
    "clampScore fmt s2n v1 50 100 = Inr (overallScore r0)"
    "sanitizeCategories fmt s2n v2 = Inr (categories r0)"
    "clampScore fmt s2n v7 60 100 = Inr (atsScore r0)"
    unfolding buildResponseData_def thenDo_Inr by auto
  then show ?thesis
    using r by (auto simp: ensureData_fields dest: clampScore_range sanitizeCategories_score)
qed

text \<open>
  C1. Whatever JSON value the language model replies with, a sanitized response that
  the feedback handler builds from it has an \<open>overallScore\<close> and an \<open>atsScore\<close> that are
  numbers between 0 and 100, and every element of its \<open>categories\<close> has a \<open>score\<close> that
  is a number between 0 and 10. A response is built for every reply that is not
  \<open>null\<close>, has no \<open>null\<close> among the elements of \<open>categories\<close> and \<open>keywordAnalysis\<close>,
  and contains no object with a member called \<open>toString\<close>; on the other replies a
  property access or a conversion may throw a TypeError, and then there is no response.
\<close>

theorem sanitize_scores_in_range:
  "(\<forall>r. sanitize fmt s2n reply = Inr r \<longrightarrow>
      in_range 0 100 (overallScore r) \<and> in_range 0 100 (atsScore r) \<and>
      (\<forall>c \<in> set (categories r). in_range 0 10 (cat_score c))) \<and>
   (plain reply \<longrightarrow> reply \<noteq> JNull \<longrightarrow>
      (\<forall>xs. getProp (Some reply) (ascii ''categories'') = Inr (Some (JArr xs)) \<longrightarrow>
            JNull \<notin> set xs) \<longrightarrow>
      (\<forall>xs. getProp (Some reply) (ascii ''keywordAnalysis'') = Inr (Some (JArr xs)) \<longrightarrow>
            JNull \<notin> set xs) \<longrightarrow>
      (\<exists>r. sanitize fmt s2n reply = Inr r))"
  using built_scores_in_range [of fmt s2n reply] sanitize_returns [of reply fmt s2n]
  by blast

theorem sanitize_scores_in_range_witness:
  "sanitize (\<lambda>q. []) (\<lambda>s. NaN)
     (JObj [(ascii ''overallScore'', JNum (Fin 250)),
            (ascii ''categories'', JArr [JObj [(ascii ''score'', JNum (Fin 11))]]),
            (ascii ''atsScore'', JNum (Fin (- 3)))])
   = Inr \<lparr>overallScore = Fin 100,
          categories = [\<lparr>cat_name = ascii ''Uncategorized'', cat_score = Fin 10,
                         cat_feedback = ascii ''No specific feedback provided''\<rparr>],
          strengths = shortStrengths, suggestions = shortSuggestions,
          jobTitleMatch = ascii ''Professional'', keywordAnalysis = [],
          atsScore = Fin 0\<rparr>
   \<and> in_range 0 100 (Fin 100) \<and> in_range 0 100 (Fin 0) \<and> in_range 0 10 (Fin 10)"
proof -
  have h: "sanitize (\<lambda>q. []) (\<lambda>s. NaN)
     (JObj [(ascii ''overallScore'', JNum (Fin 250)),
            (ascii ''categories'', JArr [JObj [(ascii ''score'', JNum (Fin 11))]]),
            (ascii ''atsScore'', JNum (Fin (- 3)))])
   = Inr \<lparr>overallScore = Fin 100,
          categories = [\<lparr>cat_name = ascii ''Uncategorized'', cat_score = Fin 10,
                         cat_feedback = ascii ''No specific feedback provided''\<rparr>],
          strengths = shortStrengths, suggestions = shortSuggestions,
          jobTitleMatch = ascii ''Professional'', keywordAnalysis = [],
          atsScore = Fin 0\<rparr>"
    by (simp add: sanitize_eval shortStrengths_def shortSuggestions_def)
  let ?r = "\<lparr>overallScore = Fin 100,
          categories = [\<lparr>cat_name = ascii ''Uncategorized'', cat_score = Fin 10,
                         cat_feedback = ascii ''No specific feedback provided''\<rparr>],
          strengths = shortStrengths, suggestions = shortSuggestions,
          jobTitleMatch = ascii ''Professional'', keywordAnalysis = [],
          atsScore = Fin 0\<rparr>"
  from sanitize_scores_in_range [of "\<lambda>q. []" "\<lambda>s. NaN"] h
  have "in_range 0 100 (overallScore ?r) \<and> in_range 0 100 (atsScore ?r) \<and>
        (\<forall>c \<in> set (categories ?r). in_range 0 10 (cat_score c))"
    by blast
  with h show ?thesis by simp
qed

subsection \<open>Strengths and suggestions\<close>

lemma default_lists_nonempty:
  "shortStrengths \<noteq> []" "\<forall>s \<in> set shortStrengths. s \<noteq> []"
  "shortSuggestions \<noteq> []" "\<forall>s \<in> set shortSuggestions. s \<noteq> []"
  "fallbackStrengths \<noteq> []" "\<forall>s \<in> set fallbackStrengths. s \<noteq> []"
  "fallbackSuggestions \<noteq> []" "\<forall>s \<in> set fallbackSuggestions. s \<noteq> []"
  by (simp_all add: shortStrengths_def shortSuggestions_def fallbackStrengths_def
      fallbackSuggestions_def ascii_def)

lemma sanitizeStrings_nonempty_elems:
  assumes "sanitizeStrings fmt v d = Inr ss" and "\<forall>s \<in> set d. s \<noteq> []"
  shows "\<forall>s \<in> set ss. s \<noteq> []"
  using assms by (auto simp: sanitizeStrings_def thenDo_Inr split: if_splits)

lemma sanitizeStrings_not_array:
  "\<not> isArray v \<Longrightarrow> sanitizeStrings fmt v d = Inr d"
  by (simp add: sanitizeStrings_def)

lemma mapM_all_same:
  assumes "mapM f xs = Inr ys" and "\<forall>x \<in> set xs. f x = Inr c"
  shows "\<forall>y \<in> set ys. y = c"
  using assms by (auto dest!: mapM_Inr_set)

lemma sanitizeStrings_all_empty:
  assumes "sanitizeStrings fmt v d = Inr ss" and "isArray v"
    and "\<forall>x \<in> set (elems v). ToString fmt x = Inr []"
  shows "ss = []"
proof -
  from assms(1,2) obtain ys where m: "mapM (ToString fmt) (elems v) = Inr ys"
    and ss: "ss = filter (\<lambda>s. length s > 0) ys"
    by (auto simp: sanitizeStrings_def thenDo_Inr)
  from mapM_all_same [OF m assms(3)] have "\<forall>y \<in> set ys. y = []" .
  with ss show ?thesis by (simp add: filter_empty_conv)
qed

lemma ensureData_strengths:
  "strengths (ensureData r) = (if strengths r = [] then fallbackStrengths else strengths r)"
  by (simp add: ensureData_def Let_def)

lemma ensureData_suggestions:
  "suggestions (ensureData r) =
     (if suggestions r = [] then fallbackSuggestions else suggestions r)"
  by (simp add: ensureData_def Let_def)

lemma buildResponseData_fields:
  assumes "buildResponseData fmt s2n reply = Inr r0"
  shows "\<exists>v1 v2 v3 v4 v5 v6 v7.
     getProp (Some reply) (ascii ''overallScore'') = Inr v1 \<and>
     clampScore fmt s2n v1 50 100 = Inr (overallScore r0) \<and>
     getProp (Some reply) (ascii ''categories'') = Inr v2 \<and>
     sanitizeCategories fmt s2n v2 = Inr (categories r0) \<and>
     getProp (Some reply) (ascii ''strengths'') = Inr v3 \<and>
     sanitizeStrings fmt v3 shortStrengths = Inr (strengths r0) \<and>
     getProp (Some reply) (ascii ''suggestions'') = Inr v4 \<and>
     sanitizeStrings fmt v4 shortSuggestions = Inr (suggestions r0) \<and>
     getProp (Some reply) (ascii ''jobTitleMatch'') = Inr v5 \<and>
     stringOr fmt v5 ''Professional'' = Inr (jobTitleMatch r0) \<and>
     getProp (Some reply) (ascii ''keywordAnalysis'') = Inr v6 \<and>
     sanitizeKeywords fmt s2n v6 = Inr (keywordAnalysis r0) \<and>
     getProp (Some reply) (ascii ''atsScore'') = Inr v7 \<and>
     clampScore fmt s2n v7 60 100 = Inr (atsScore r0)"
  using assms unfolding buildResponseData_def thenDo_Inr by auto

text \<open>
  C7. In every sanitized response the \<open>strengths\<close> and the \<open>suggestions\<close> are non-empty
  lists of non-empty strings. When the reply has no such member or one that is not an
  array, the two-element default list stands in; when the array yields only empty
  strings (or is empty), the longer fallback list does.
\<close>

theorem sanitize_strengths_suggestions:
  assumes "sanitize fmt s2n reply = Inr r"
  shows "strengths r \<noteq> [] \<and> (\<forall>s \<in> set (strengths r). s \<noteq> []) \<and>
         suggestions r \<noteq> [] \<and> (\<forall>s \<in> set (suggestions r). s \<noteq> []) \<and>
         (\<forall>v. getProp (Some reply) (ascii ''strengths'') = Inr v \<longrightarrow>
            (\<not> isArray v \<longrightarrow> strengths r = shortStrengths) \<and>
            (isArray v \<and> (\<forall>x \<in> set (elems v). ToString fmt x = Inr []) \<longrightarrow>
               strengths r = fallbackStrengths)) \<and>
         (\<forall>v. getProp (Some reply) (ascii ''suggestions'') = Inr v \<longrightarrow>
            (\<not> isArray v \<longrightarrow> suggestions r = shortSuggestions) \<and>
            (isArray v \<and> (\<forall>x \<in> set (elems v). ToString fmt x = Inr []) \<longrightarrow>
               suggestions r = fallbackSuggestions))"
proof -
  from assms obtain r0 where b: "buildResponseData fmt s2n reply = Inr r0"
    and r: "r = ensureData r0" by (auto simp: sanitize_Inr)
  from buildResponseData_fields [OF b] obtain v3 v4 where
    g3: "getProp (Some reply) (ascii ''strengths'') = Inr v3" and
    s3: "sanitizeStrings fmt v3 shortStrengths = Inr (strengths r0)" and
    g4: "getProp (Some reply) (ascii ''suggestions'') = Inr v4" and
    s4: "sanitizeStrings fmt v4 shortSuggestions = Inr (suggestions r0)"
    by blast
  have e3: "\<forall>s \<in> set (strengths r0). s \<noteq> []"
    using sanitizeStrings_nonempty_elems [OF s3] default_lists_nonempty by blast
  have e4: "\<forall>s \<in> set (suggestions r0). s \<noteq> []"
    using sanitizeStrings_nonempty_elems [OF s4] default_lists_nonempty by blast
  have 1: "strengths r \<noteq> []" "suggestions r \<noteq> []"
    using r default_lists_nonempty by (simp_all add: ensureData_strengths ensureData_suggestions)
  have 2: "\<forall>s \<in> set (strengths r). s \<noteq> []"
    using r e3 default_lists_nonempty(6) by (simp add: ensureData_strengths)
  have 3: "\<forall>s \<in> set (suggestions r). s \<noteq> []"
    using r e4 default_lists_nonempty(8) by (simp add: ensureData_suggestions)
  have 4: "strengths r = shortStrengths" if "\<not> isArray v3"
    using that s3 r default_lists_nonempty(1)
    by (simp add: sanitizeStrings_not_array ensureData_strengths)
  have 5: "suggestions r = shortSuggestions" if "\<not> isArray v4"
    using that s4 r default_lists_nonempty(3)
    by (simp add: sanitizeStrings_not_array ensureData_suggestions)
  have 6: "strengths r = fallbackStrengths"
    if "isArray v3" "\<forall>x \<in> set (elems v3). ToString fmt x = Inr []"
    using sanitizeStrings_all_empty [OF s3 that] r by (simp add: ensureData_strengths)
  have 7: "suggestions r = fallbackSuggestions"
    if "isArray v4" "\<forall>x \<in> set (elems v4). ToString fmt x = Inr []"
    using sanitizeStrings_all_empty [OF s4 that] r by (simp add: ensureData_suggestions)
  show ?thesis using 1 2 3 4 5 6 7 g3 g4 by simp
qed

theorem sanitize_strengths_suggestions_witness:
  "sanitize (\<lambda>q. []) (\<lambda>s. NaN)
     (JObj [(ascii ''strengths'', JArr [JStr [], JArr [], JArr [JNull]]),
            (ascii ''suggestions'', JNum (Fin 7))])
   = Inr \<lparr>overallScore = Fin 50, categories = defaultCategories,
          strengths = fallbackStrengths, suggestions = shortSuggestions,
          jobTitleMatch = ascii ''Professional'', keywordAnalysis = [],
          atsScore = Fin 60\<rparr>
   \<and> fallbackStrengths \<noteq> [] \<and> shortSuggestions \<noteq> []"
proof -
  have h: "sanitize (\<lambda>q. []) (\<lambda>s. NaN)
     (JObj [(ascii ''strengths'', JArr [JStr [], JArr [], JArr [JNull]]),
            (ascii ''suggestions'', JNum (Fin 7))])
   = Inr \<lparr>overallScore = Fin 50, categories = defaultCategories,
          strengths = fallbackStrengths, suggestions = shortSuggestions,
          jobTitleMatch = ascii ''Professional'', keywordAnalysis = [],
          atsScore = Fin 60\<rparr>"
    by (simp add: sanitize_eval shortStrengths_def shortSuggestions_def)
  from sanitize_strengths_suggestions [OF h] show ?thesis using h by simp
qed


subsection \<open>Keyword analysis\<close>

lemma mapM_Inr_nth:
  assumes "mapM f xs = Inr ys"
  shows "length ys = length xs" and "i < length xs \<Longrightarrow> f (xs ! i) = Inr (ys ! i)"
proof -
  from assms have m: "map f xs = map Inr ys" by (simp add: mapM_Inr)
  then show l: "length ys = length xs" by (metis length_map)
  show "f (xs ! i) = Inr (ys ! i)" if "i < length xs"
  proof -
    have "f (xs ! i) = map f xs ! i" using that by simp
    also have "\<dots> = Inr (ys ! i)" using that l by (simp add: m)
    finally show ?thesis .
  qed
qed

lemma count_nonneg: "nonneg (Math_max (num_or n (Fin 0)) (Fin 0))"
  by (cases n) (auto simp: Math_max_def num_or_def)

lemma sanitizeImportance_level: "sanitizeImportance i \<in> set importanceLevels"
  by (cases i rule: sanitizeImportance.cases) (simp_all add: importanceLevels_def)

lemma sanitizeImportance_found:
  "s \<in> set importanceLevels \<Longrightarrow> sanitizeImportance (Some (JStr s)) = s"
  by simp

lemma sanitizeImportance_other:
  "i \<notin> (\<lambda>s. Some (JStr s)) ` set importanceLevels \<Longrightarrow> sanitizeImportance i = ascii ''medium''"
  by (cases i rule: sanitizeImportance.cases) auto

lemma sanitizeKeyword_fields:
  assumes "sanitizeKeyword fmt s2n kw = Inr e"
  shows "nonneg (kw_count e)"
    and "\<exists>i. getProp (Some kw) (ascii ''importance'') = Inr i \<and>
             kw_importance e = sanitizeImportance i"
  using assms by (auto simp: sanitizeKeyword_def thenDo_Inr count_nonneg)

lemma sanitizeKeywords_entries:
  assumes "sanitizeKeywords fmt s2n v = Inr ks" and "e \<in> set ks"
  shows "kw_keyword e \<noteq> [] \<and> nonneg (kw_count e) \<and> kw_importance e \<in> set importanceLevels"
proof (cases "isArray v")
  case True
  with assms obtain es where m: "mapM (sanitizeKeyword fmt s2n) (elems v) = Inr es"
    and ks: "ks = filter (\<lambda>kw. kw_keyword kw \<noteq> []) es"
    by (auto simp: sanitizeKeywords_def thenDo_Inr)
  from ks assms(2) have e: "e \<in> set es" "kw_keyword e \<noteq> []" by auto
  from mapM_Inr_set [OF m e(1)] obtain kw where k: "sanitizeKeyword fmt s2n kw = Inr e"
    by blast
  from sanitizeKeyword_fields [OF k] sanitizeImportance_level e(2) show ?thesis
    by auto
next
  case False
  with assms show ?thesis by (simp add: sanitizeKeywords_def)
qed

text \<open>
  C8. Every entry of \<open>keywordAnalysis\<close> in a sanitized response has a non-empty keyword, a
  count that is a number and at least 0, and an importance that is one of \<open>high\<close>,
  \<open>medium\<close> and \<open>low\<close>. The entries are those of the reply's array, sanitized one by
  one, without the ones whose keyword came out as the empty string; an importance that
  is not one of the three strings is replaced by \<open>medium\<close>.
\<close>

theorem sanitize_keywordAnalysis:
  assumes "sanitize fmt s2n reply = Inr r"
  shows "(\<forall>e \<in> set (keywordAnalysis r).
            kw_keyword e \<noteq> [] \<and> nonneg (kw_count e) \<and>
            kw_importance e \<in> {ascii ''high'', ascii ''medium'', ascii ''low''}) \<and>
         (\<forall>v. getProp (Some reply) (ascii ''keywordAnalysis'') = Inr v \<longrightarrow> isArray v \<longrightarrow>
            (\<exists>es. map (sanitizeKeyword fmt s2n) (elems v) = map Inr es \<and>
                  keywordAnalysis r = filter (\<lambda>e. kw_keyword e \<noteq> []) es)) \<and>
         (\<forall>kw e i. sanitizeKeyword fmt s2n kw = Inr e \<longrightarrow>
            getProp (Some kw) (ascii ''importance'') = Inr i \<longrightarrow>
            i \<notin> {Some (JStr (ascii ''high'')), Some (JStr (ascii ''medium'')),
                  Some (JStr (ascii ''low''))} \<longrightarrow>
            kw_importance e = ascii ''medium'')"
proof -
  from assms obtain r0 where b: "buildResponseData fmt s2n reply = Inr r0"
    and r: "r = ensureData r0" by (auto simp: sanitize_Inr)
  from buildResponseData_fields [OF b] obtain v6 where
    g6: "getProp (Some reply) (ascii ''keywordAnalysis'') = Inr v6" and
    s6: "sanitizeKeywords fmt s2n v6 = Inr (keywordAnalysis r0)"
    by blast
  have k: "keywordAnalysis r = keywordAnalysis r0" using r by (simp add: ensureData_fields)
  have 1: "\<forall>e \<in> set (keywordAnalysis r).
            kw_keyword e \<noteq> [] \<and> nonneg (kw_count e) \<and>
            kw_importance e \<in> {ascii ''high'', ascii ''medium'', ascii ''low''}"
    using sanitizeKeywords_entries [OF s6] k by (simp add: importanceLevels_def)
  have 2: "\<exists>es. map (sanitizeKeyword fmt s2n) (elems v6) = map Inr es \<and>
                keywordAnalysis r = filter (\<lambda>e. kw_keyword e \<noteq> []) es" if "isArray v6"
    using that s6 k by (auto simp: sanitizeKeywords_def thenDo_Inr mapM_Inr)
  have 3: "kw_importance e = ascii ''medium''"
    if "sanitizeKeyword fmt s2n kw = Inr e"
      "getProp (Some kw) (ascii ''importance'') = Inr i"
      "i \<notin> {Some (JStr (ascii ''high'')), Some (JStr (ascii ''medium'')),
                  Some (JStr (ascii ''low''))}" for kw e i
  proof -
    from sanitizeKeyword_fields(2) [OF that(1)] that(2)
    have "kw_importance e = sanitizeImportance i" by auto
    moreover have "i \<notin> (\<lambda>s. Some (JStr s)) ` set importanceLevels"
      using that(3) by (auto simp: importanceLevels_def)
    ultimately show ?thesis by (simp add: sanitizeImportance_other)
  qed
  from 1 2 3 g6 show ?thesis by (simp (no_asm_simp)) blast
qed

theorem sanitize_keywordAnalysis_witness:
  "sanitize (\<lambda>q. []) (\<lambda>s. NaN)
     (JObj [(ascii ''keywordAnalysis'',
        JArr [JObj [(ascii ''keyword'', JStr (ascii ''js'')),
                    (ascii ''count'', JNum (Fin (- 4))),
                    (ascii ''importance'', JStr (ascii ''urgent''))],
              JObj [(ascii ''keyword'', JArr []),
                    (ascii ''count'', JNum (Fin 2)),
                    (ascii ''importance'', JStr (ascii ''high''))],
              JObj [(ascii ''keyword'', JStr (ascii ''go'')),
                    (ascii ''count'', JNum (Fin 3)),
                    (ascii ''importance'', JStr (ascii ''low''))]])])
   = Inr \<lparr>overallScore = Fin 50, categories = defaultCategories,
          strengths = shortStrengths, suggestions = shortSuggestions,
          jobTitleMatch = ascii ''Professional'',
          keywordAnalysis =
            [\<lparr>kw_keyword = ascii ''js'', kw_count = Fin 0, kw_importance = ascii ''medium'',
              kw_recommendation = ascii ''Consider adding this keyword''\<rparr>,
             \<lparr>kw_keyword = ascii ''go'', kw_count = Fin 3, kw_importance = ascii ''low'',
              kw_recommendation = ascii ''Consider adding this keyword''\<rparr>],
          atsScore = Fin 60\<rparr>
   \<and> nonneg (Fin 0) \<and> nonneg (Fin 3)"
proof -
  have h: "sanitize (\<lambda>q. []) (\<lambda>s. NaN)
     (JObj [(ascii ''keywordAnalysis'',
        JArr [JObj [(ascii ''keyword'', JStr (ascii ''js'')),
                    (ascii ''count'', JNum (Fin (- 4))),
                    (ascii ''importance'', JStr (ascii ''urgent''))],
              JObj [(ascii ''keyword'', JArr []),
                    (ascii ''count'', JNum (Fin 2)),
                    (ascii ''importance'', JStr (ascii ''high''))],
              JObj [(ascii ''keyword'', JStr (ascii ''go'')),
                    (ascii ''count'', JNum (Fin 3)),
                    (ascii ''importance'', JStr (ascii ''low''))]])])
   = Inr \<lparr>overallScore = Fin 50, categories = defaultCategories,
          strengths = shortStrengths, suggestions = shortSuggestions,
          jobTitleMatch = ascii ''Professional'',
          keywordAnalysis =
            [\<lparr>kw_keyword = ascii ''js'', kw_count = Fin 0, kw_importance = ascii ''medium'',
              kw_recommendation = ascii ''Consider adding this keyword''\<rparr>,
             \<lparr>kw_keyword = ascii ''go'', kw_count = Fin 3, kw_importance = ascii ''low'',
              kw_recommendation = ascii ''Consider adding this keyword''\<rparr>],
          atsScore = Fin 60\<rparr>"
    by (simp add: sanitize_eval shortStrengths_def shortSuggestions_def importanceLevels_def)
  from sanitize_keywordAnalysis [OF h] show ?thesis using h by simp
qed

subsection \<open>A score of zero\<close>

lemma clampScore_zero:
  "0 \<le> d \<Longrightarrow> d \<le> hi \<Longrightarrow> clampScore fmt s2n (Some (JNum (Fin 0))) d hi = Inr (Fin d)"
  by (simp add: clampScore_def thenDo_def num_or_def Math_max_def Math_min_def)

lemma sanitizeCategory_zero:
  assumes "sanitizeCategory fmt s2n cat = Inr c"
    and "getProp (Some cat) (ascii ''score'') = Inr (Some (JNum (Fin 0)))"
  shows "cat_score c = Fin 5"
  using assms by (auto simp: sanitizeCategory_def thenDo_Inr clampScore_zero)

text \<open>
  C9. A score of exactly 0 in the reply is not kept: 0 is falsy, so \<open>||\<close> puts the
  default in its place before the clamping. An \<open>overallScore\<close> of 0 comes out as 50, an
  \<open>atsScore\<close> of 0 as 60 and the \<open>score\<close> 0 of a category as 5.
\<close>

theorem sanitize_zero_scores:
  assumes "sanitize fmt s2n reply = Inr r"
  shows "(getProp (Some reply) (ascii ''overallScore'') = Inr (Some (JNum (Fin 0))) \<longrightarrow>
            overallScore r = Fin 50) \<and>
         (getProp (Some reply) (ascii ''atsScore'') = Inr (Some (JNum (Fin 0))) \<longrightarrow>
            atsScore r = Fin 60) \<and>
         (\<forall>cs. getProp (Some reply) (ascii ''categories'') = Inr (Some (JArr cs)) \<longrightarrow>
            length (categories r) = length cs \<and>
            (\<forall>i < length cs.
               getProp (Some (cs ! i)) (ascii ''score'') = Inr (Some (JNum (Fin 0))) \<longrightarrow>
               cat_score (categories r ! i) = Fin 5))"
proof -
  from assms obtain r0 where b: "buildResponseData fmt s2n reply = Inr r0"
    and r: "r = ensureData r0" by (auto simp: sanitize_Inr)
  from buildResponseData_fields [OF b] obtain v1 v2 v7 where
    g1: "getProp (Some reply) (ascii ''overallScore'') = Inr v1" and
    s1: "clampScore fmt s2n v1 50 100 = Inr (overallScore r0)" and
    g2: "getProp (Some reply) (ascii ''categories'') = Inr v2" and
    s2: "sanitizeCategories fmt s2n v2 = Inr (categories r0)" and
    g7: "getProp (Some reply) (ascii ''atsScore'') = Inr v7" and
    s7: "clampScore fmt s2n v7 60 100 = Inr (atsScore r0)"
    by blast
  have 1: "overallScore r = Fin 50" if "v1 = Some (JNum (Fin 0))"
    using that s1 r by (simp add: clampScore_zero ensureData_fields)
  have 7: "atsScore r = Fin 60" if "v7 = Some (JNum (Fin 0))"
    using that s7 r by (simp add: clampScore_zero ensureData_fields)
  have 2: "length (categories r) = length cs \<and>
            (\<forall>i < length cs.
               getProp (Some (cs ! i)) (ascii ''score'') = Inr (Some (JNum (Fin 0))) \<longrightarrow>
               cat_score (categories r ! i) = Fin 5)" if "v2 = Some (JArr cs)" for cs
  proof -
    from that s2 have m: "mapM (sanitizeCategory fmt s2n) cs = Inr (categories r0)"
      by (simp add: sanitizeCategories_def)
    have c: "categories r = categories r0" using r by (simp add: ensureData_fields)
    have "cat_score (categories r0 ! i) = Fin 5"
      if "i < length cs"
        "getProp (Some (cs ! i)) (ascii ''score'') = Inr (Some (JNum (Fin 0)))" for i
      using sanitizeCategory_zero [OF mapM_Inr_nth(2) [OF m that(1)] that(2)] .
    with mapM_Inr_nth(1) [OF m] c show ?thesis by simp
  qed
  from 1 2 7 g1 g2 g7 show ?thesis by (simp (no_asm_simp))
qed

theorem sanitize_zero_scores_witness:
  "sanitize (\<lambda>q. []) (\<lambda>s. NaN)
     (JObj [(ascii ''overallScore'', JNum (Fin 0)),
            (ascii ''categories'',
               JArr [JObj [(ascii ''name'', JStr (ascii ''Skills'')),
                           (ascii ''score'', JNum (Fin 0))]]),
            (ascii ''atsScore'', JNum (Fin 0))])
   = Inr \<lparr>overallScore = Fin 50,
          categories = [\<lparr>cat_name = ascii ''Skills'', cat_score = Fin 5,
                         cat_feedback = ascii ''No specific feedback provided''\<rparr>],
          strengths = shortStrengths, suggestions = shortSuggestions,
          jobTitleMatch = ascii ''Professional'', keywordAnalysis = [],
          atsScore = Fin 60\<rparr>"
proof -
  let ?cs = "[JObj [(ascii ''name'', JStr (ascii ''Skills'')), (ascii ''score'', JNum (Fin 0))]]"
  let ?reply = "JObj [(ascii ''overallScore'', JNum (Fin 0)),
            (ascii ''categories'', JArr ?cs), (ascii ''atsScore'', JNum (Fin 0))]"
  obtain r where h: "sanitize (\<lambda>q. []) (\<lambda>s. NaN) ?reply = Inr r"
    and rest: "categories r = [\<lparr>cat_name = ascii ''Skills'', cat_score = cat_score (categories r ! 0),
                         cat_feedback = ascii ''No specific feedback provided''\<rparr>]"
      "strengths r = shortStrengths" "suggestions r = shortSuggestions"
      "jobTitleMatch r = ascii ''Professional''" "keywordAnalysis r = []"
    by (simp add: sanitize_eval shortStrengths_def shortSuggestions_def)
  have g: "getProp (Some ?reply) (ascii ''overallScore'') = Inr (Some (JNum (Fin 0)))"
    "getProp (Some ?reply) (ascii ''atsScore'') = Inr (Some (JNum (Fin 0)))"
    "getProp (Some ?reply) (ascii ''categories'') = Inr (Some (JArr ?cs))"
    "getProp (Some (?cs ! 0)) (ascii ''score'') = Inr (Some (JNum (Fin 0)))"
    by (simp_all add: own_property_def ascii_def)
  from sanitize_zero_scores [OF h] g
  have "overallScore r = Fin 50" "atsScore r = Fin 60" "cat_score (categories r ! 0) = Fin 5"
    by simp_all
  with rest have "r = \<lparr>overallScore = Fin 50,
          categories = [\<lparr>cat_name = ascii ''Skills'', cat_score = Fin 5,
                         cat_feedback = ascii ''No specific feedback provided''\<rparr>],
          strengths = shortStrengths, suggestions = shortSuggestions,
          jobTitleMatch = ascii ''Professional'', keywordAnalysis = [],
          atsScore = Fin 60\<rparr>" by simp
  with h show ?thesis by simp
qed


section \<open>Properties of the file name\<close>

lemma isUpper_lower:
  assumes "isUpper c"
  shows "isLower (c + 0x20)"
proof -
  from assms have b: "65 \<le> unat c" "unat c \<le> 90"
    by (simp_all add: isUpper_def word_le_nat_alt)
  then have "unat (c + 0x20) = unat c + 32"
    by (simp add: unat_word_ariths)
  with b show ?thesis by (simp add: isLower_def word_le_nat_alt)
qed

lemma fileNameChar_ascii:
  "isLower c \<or> isUpper c \<or> isDigit c \<or> c = 0x2D \<Longrightarrow> c < 0x80"
  by (auto simp: isUpper_def isLower_def isDigit_def word_le_nat_alt word_less_nat_alt)

lemma removeSpecial_set:
  "c \<in> set (removeSpecial s) \<Longrightarrow> isLower c \<or> isUpper c \<or> isDigit c \<or> isWhiteSpace c"
  by (simp add: removeSpecial_def)

lemma hyphenate_set:
  "c \<in> set (hyphenate s) \<Longrightarrow> c = 0x2D \<or> (c \<in> set s \<and> \<not> isWhiteSpace c)"
proof (induction s rule: hyphenate.induct)
  case 1
  then show ?case by simp
next
  case (2 d ds)
  then show ?case by (auto split: if_splits dest: set_dropWhileD)
qed

lemma slug_chars: "c \<in> set (slug unicodeLower s) \<Longrightarrow> isFileNameChar c"
proof -
  let ?h = "hyphenate (removeSpecial s)"
  have h: "isLower d \<or> isUpper d \<or> isDigit d \<or> d = 0x2D" if "d \<in> set ?h" for d
    using hyphenate_set [OF that] removeSpecial_set [of d s] by auto
  then have a: "\<forall>d \<in> set ?h. d < 0x80" using fileNameChar_ascii by blast
  assume "c \<in> set (slug unicodeLower s)"
  with a obtain d where d: "d \<in> set ?h" and c: "c = (if isUpper d then d + 0x20 else d)"
    by (auto simp: slug_def toLowerCase_def)
  from h [OF d] c show ?thesis
    by (auto simp: isFileNameChar_def isUpper_lower)
qed


lemma slug_eq:
  "slug unicodeLower s =
     map (\<lambda>c. if isUpper c then c + 0x20 else c) (hyphenate (removeSpecial s))"
proof -
  let ?h = "hyphenate (removeSpecial s)"
  have "isLower d \<or> isUpper d \<or> isDigit d \<or> d = 0x2D" if "d \<in> set ?h" for d
    using hyphenate_set [OF that] removeSpecial_set [of d s] by auto
  then have "\<forall>d \<in> set ?h. d < 0x80" using fileNameChar_ascii by blast
  then show ?thesis by (simp add: slug_def toLowerCase_def)
qed

lemma resume_chars: "\<forall>c \<in> set (ascii ''resume''). isFileNameChar c"
  by (simp add: ascii_def isFileNameChar_def isLower_def)

lemma slugOf_chars:
  "slugOf unicodeLower what v = Inr f \<Longrightarrow> \<forall>c \<in> set f. isFileNameChar c"
  by (cases "(unicodeLower, what, v)" rule: slugOf.cases) (auto simp: slug_chars)

lemma docFileName_chars:
  "docFileName unicodeLower resumeData = Inr f \<Longrightarrow> \<forall>c \<in> set f. isFileNameChar c"
  using resume_chars
  by (auto simp: docFileName_def thenDo_Inr split: if_splits dest: slugOf_chars)

lemma pdfFileName_chars:
  "pdfFileName unicodeLower fileName resumeData = Inr f \<Longrightarrow> \<forall>c \<in> set f. isFileNameChar c"
  using resume_chars
  unfolding pdfFileName_def thenDo_Inr
  by (auto split: if_splits dest: slugOf_chars)

text \<open>
  C10. For every string given as \<open>resumeData.name\<close> (or as \<open>fileName\<close>) to POST
  /api/generate-doc or POST /api/generate-pdf, the file name that goes into the
  \<open>Content-Disposition\<close> header consists of small ASCII letters, digits and hyphens only:
  it is the name without the code units that are not letters, digits or white space,
  with a single hyphen for each run of white space, in lower case. Without a name the
  file name is \<open>resume\<close>; an empty name counts as none.
\<close>

theorem finalFileName_slug:
  "(\<forall>f. docFileName unicodeLower resumeData = Inr f \<longrightarrow> (\<forall>c \<in> set f. isFileNameChar c)) \<and>
   (\<forall>f. pdfFileName unicodeLower fileName body_resumeData = Inr f \<longrightarrow>
        (\<forall>c \<in> set f. isFileNameChar c)) \<and>
   slug unicodeLower s =
     map (\<lambda>c. if isUpper c then c + 0x20 else c) (hyphenate (removeSpecial s)) \<and>
   (s \<noteq> [] \<longrightarrow> getProp (Some resumeData) (ascii ''name'') = Inr (Some (JStr s)) \<longrightarrow>
      docFileName unicodeLower resumeData = Inr (slug unicodeLower s) \<and>
      pdfFileName unicodeLower fileName (Some resumeData) = Inr (slug unicodeLower s)) \<and>
   (getProp (Some resumeData) (ascii ''name'') = Inr None \<or>
    getProp (Some resumeData) (ascii ''name'') = Inr (Some (JStr [])) \<longrightarrow>
      docFileName unicodeLower resumeData = Inr (ascii ''resume'') \<and>
      pdfFileName unicodeLower None (Some resumeData) = Inr (ascii ''resume'') \<and>
      (s \<noteq> [] \<longrightarrow>
         pdfFileName unicodeLower (Some (JStr s)) (Some resumeData) =
           Inr (slug unicodeLower s))) \<and>
   pdfFileName unicodeLower None None = Inr (ascii ''resume'') \<and>
   (s \<noteq> [] \<longrightarrow> pdfFileName unicodeLower (Some (JStr s)) None = Inr (slug unicodeLower s))"
proof -
  have 1: "docFileName unicodeLower resumeData = Inr (slug unicodeLower s)"
    "pdfFileName unicodeLower fileName (Some resumeData) = Inr (slug unicodeLower s)"
    if "s \<noteq> []" "getProp (Some resumeData) (ascii ''name'') = Inr (Some (JStr s))"
  proof -
    from that(2) have t: "truthy (Some resumeData)" by (cases resumeData) auto
    show "docFileName unicodeLower resumeData = Inr (slug unicodeLower s)"
      using that by (simp add: docFileName_def thenDo_def)
    show "pdfFileName unicodeLower fileName (Some resumeData) = Inr (slug unicodeLower s)"
      using that t by (simp add: pdfFileName_def thenDo_def)
  qed
  have 2: "docFileName unicodeLower resumeData = Inr (ascii ''resume'')"
    "pdfFileName unicodeLower None (Some resumeData) = Inr (ascii ''resume'')"
    "s \<noteq> [] \<longrightarrow> pdfFileName unicodeLower (Some (JStr s)) (Some resumeData) =
           Inr (slug unicodeLower s)"
    if "getProp (Some resumeData) (ascii ''name'') = Inr None \<or>
        getProp (Some resumeData) (ascii ''name'') = Inr (Some (JStr []))"
    using that by (auto simp: docFileName_def pdfFileName_def thenDo_def)
  have 3: "pdfFileName unicodeLower None None = Inr (ascii ''resume'')"
    "s \<noteq> [] \<longrightarrow> pdfFileName unicodeLower (Some (JStr s)) None = Inr (slug unicodeLower s)"
    by (simp_all add: pdfFileName_def thenDo_def)
  show ?thesis
    using docFileName_chars pdfFileName_chars slug_eq 1 2 3 by blast
qed

lemmas slug_eval =
  slug_def toLowerCase_def removeSpecial_def isWhiteSpace_def isUpper_def isLower_def
  isDigit_def ascii_def

theorem finalFileName_slug_witness:
  "docFileName (\<lambda>s. s) (JObj [(ascii ''name'', JStr (ascii ''Jane  O'Neil-Smith 3rd''))])
     = Inr (ascii ''jane-oneilsmith-3rd'') \<and>
   slug (\<lambda>s. s) (ascii ''Jane  O'Neil-Smith 3rd'') = ascii ''jane-oneilsmith-3rd'' \<and>
   list_all isFileNameChar (ascii ''jane-oneilsmith-3rd'')"
proof -
  let ?rd = "JObj [(ascii ''name'', JStr (ascii ''Jane  O'Neil-Smith 3rd''))]"
  have s: "slug (\<lambda>s. s) (ascii ''Jane  O'Neil-Smith 3rd'') = ascii ''jane-oneilsmith-3rd''"
    by (simp add: slug_eval)
  have g: "getProp (Some ?rd) (ascii ''name'') = Inr (Some (JStr (ascii ''Jane  O'Neil-Smith 3rd'')))"
    by (simp add: own_property_def)
  have n: "ascii ''Jane  O'Neil-Smith 3rd'' \<noteq> []" by (simp add: ascii_def)
  from finalFileName_slug [of "\<lambda>s. s" ?rd None None "ascii ''Jane  O'Neil-Smith 3rd''"] g n s
  show ?thesis by (simp add: list_all_iff)
qed


section \<open>The fallback chain of \<open>processPdf\<close>\<close>

lemma trim_Nil: "trim [] = []"
  by (simp add: trim_def)

lemma usable_iff: "usable t \<longleftrightarrow> length (trim t) > 50"
  by (cases t) (auto simp: usable_def trim_Nil)

lemma trim_sampleText: "trim sampleText = sampleText"
  by (simp add: trim_def sampleText_def isWhiteSpace_def)

lemma length_sampleText: "length sampleText = 60"
  by (simp add: sampleText_def)

lemma usable_sampleText: "usable sampleText"
  by (simp add: usable_iff trim_sampleText length_sampleText)

lemma processPdf_unreadable:
  "readFileSync w filePath = Inl e \<Longrightarrow> processPdf w filePath = (Inl e, [])"
  by (simp add: processPdf_def)

lemma processPdf_readable:
  "readFileSync w filePath = Inr b \<Longrightarrow>
   returned (processPdf w filePath) = processPdf_spec w filePath"
  by (auto simp: processPdf_def processPdf_spec_def tryTesseract_def Let_def usable_iff
      trim_Nil split: sum.splits)

text \<open>
  C2, as the code has it. When \<open>readFileSync\<close> can read the file, \<open>processPdf\<close> tries
  pdf-parse, then pdftotextjs, then the Tesseract OCR, returns the output of the first
  of them whose text has a trimmed length above 50 without invoking the later ones, and
  throws when none of the three has such a text. When \<open>readFileSync\<close> throws,
  \<open>processPdf\<close> throws that error and invokes no extractor at all.
\<close>

theorem processPdf_fallback_chain:
  "(\<forall>b. readFileSync w filePath = Inr b \<longrightarrow>
        returned (processPdf w filePath) = processPdf_spec w filePath) \<and>
   (\<forall>e. readFileSync w filePath = Inl e \<longrightarrow> processPdf w filePath = (Inl e, []))"
  using processPdf_readable processPdf_unreadable by blast

theorem processPdf_fallback_chain_witness:
  "readFileSync (failingWorld\<lparr>readFileSync := \<lambda>p. Inr [], pdftotext_getText := \<lambda>p. Inr sampleText\<rparr>)
     (ascii ''uploads/1-cv.pdf'') = Inr [] \<and>
   processPdf_spec (failingWorld\<lparr>readFileSync := \<lambda>p. Inr [], pdftotext_getText := \<lambda>p. Inr sampleText\<rparr>)
     (ascii ''uploads/1-cv.pdf'') = (Some sampleText, [PdfParse, PdfToText]) \<and>
   returned (processPdf (failingWorld\<lparr>readFileSync := \<lambda>p. Inr [], pdftotext_getText := \<lambda>p. Inr sampleText\<rparr>)
     (ascii ''uploads/1-cv.pdf'')) = (Some sampleText, [PdfParse, PdfToText])"
proof -
  let ?w = "failingWorld\<lparr>readFileSync := \<lambda>p. Inr [], pdftotext_getText := \<lambda>p. Inr sampleText\<rparr>"
  let ?p = "ascii ''uploads/1-cv.pdf''"
  have r: "readFileSync ?w ?p = Inr []" by simp
  have s: "processPdf_spec ?w ?p = (Some sampleText, [PdfParse, PdfToText])"
    by (simp add: processPdf_spec_def failingWorld_def trim_sampleText length_sampleText)
  from processPdf_fallback_chain [of ?w ?p] r s show ?thesis by simp
qed

text \<open>
  C2 as the specification states it, for every path, fails where the file cannot be
  read although pdftotextjs would have produced sixty letters: the specification's
  chain returns them, \<open>processPdf\<close> throws and has tried nothing.
\<close>

theorem processPdf_unreadable_counterexample:
  "processPdf (failingWorld\<lparr>pdftotext_getText := \<lambda>p. Inr sampleText\<rparr>)
     (ascii ''uploads/1-cv.pdf'') = (Inl (Error (ascii ''EACCES: permission denied'')), []) \<and>
   processPdf_spec (failingWorld\<lparr>pdftotext_getText := \<lambda>p. Inr sampleText\<rparr>)
     (ascii ''uploads/1-cv.pdf'') = (Some sampleText, [PdfParse, PdfToText]) \<and>
   returned (processPdf (failingWorld\<lparr>pdftotext_getText := \<lambda>p. Inr sampleText\<rparr>)
     (ascii ''uploads/1-cv.pdf'')) \<noteq>
   processPdf_spec (failingWorld\<lparr>pdftotext_getText := \<lambda>p. Inr sampleText\<rparr>)
     (ascii ''uploads/1-cv.pdf'')"
  by (simp add: processPdf_def processPdf_spec_def failingWorld_def trim_sampleText
      length_sampleText)


section \<open>POST /api/generate-pdf never succeeds\<close>

lemma thenDo_throws: "(\<And>x. \<exists>e. f x = Inl e) \<Longrightarrow> \<exists>e. thenDo m f = Inl e"
  by (cases m) (simp_all add: thenDo_def)

lemma resolve_chromium:
  "resolve ''chromium'' = Inl (ReferenceError (ascii ''chromium is not defined''))"
  by (simp add: resolve_def handlerBindings_def moduleBindings_def nodeGlobals_def ascii_def)

lemma generatePdfTry_throws: "\<exists>e. generatePdfTry unicodeLower rendered body = Inl e"
  unfolding generatePdfTry_def
  by (rule thenDo_throws, rule thenDo_throws, rule thenDo_throws, rule thenDo_throws)
    (simp add: resolve_chromium thenDo_def)

text \<open>
  C4. Every request that reaches the handler of POST /api/generate-pdf is answered with
  status 500 and the body \<open>{"error": "Failed to generate PDF"}\<close>, whatever its body:
  the handler reads the identifier \<open>chromium\<close>, which is bound nowhere, before it
  launches a browser or sends anything.
\<close>

theorem generatePdf_always_fails:
  "generatePdfHandler unicodeLower rendered body =
     Json 500 (JObj [(ascii ''error'', JStr (ascii ''Failed to generate PDF''))])"
proof -
  obtain e where "generatePdfTry unicodeLower rendered body = Inl e"
    using generatePdfTry_throws by blast
  then show ?thesis by (simp add: generatePdfHandler_def errorBody_def)
qed

theorem generatePdf_always_fails_witness:
  "generatePdfHandler (\<lambda>s. s) (\<lambda>html. Inr [0x25, 0x50, 0x44, 0x46])
     (Some (JObj [(ascii ''html'', JStr (ascii ''<h1>Jane</h1>'')),
                  (ascii ''fileName'', JStr (ascii ''Jane CV''))])) =
     Json 500 (JObj [(ascii ''error'', JStr (ascii ''Failed to generate PDF''))])"
  by (rule generatePdf_always_fails)


section \<open>The feedback handler when too little text was extracted\<close>

text \<open>A request with a stored file passes \<open>validateFile\<close> and reaches the handler.\<close>

lemma feedbackRoute_stored:
  "feedbackRoute fmt s2n w (Some file) files = feedbackHandler fmt s2n w file files"
  by (simp add: feedbackRoute_def)

lemma feedbackRoute_no_file:
  "feedbackRoute fmt s2n w None files =
     \<lparr>response = Json 400 (failure ''No file uploaded''), llmCalls = [], filesAfter = files\<rparr>"
  by (simp add: feedbackRoute_def)

lemma tooShort_message:
  "errorResponse (Error (ascii ''Resume text is too short or could not be extracted properly'')) =
     Json 400 (failure (''Could not extract sufficient text from the resume. '' @
                        ''Please ensure the file is readable and try again.''))"
  by (simp add: errorResponse_def ascii_def)

lemma unprocessable_message:
  "errorResponse (Error (ascii ''PDF could not be processed by any method'')) =
     Json 500 (failureWith ''Failed to analyze resume: ''
                 (ascii ''PDF could not be processed by any method''))"
  by (simp add: errorResponse_def ascii_def)

lemma feedback_short:
  assumes "extractText w file = Inr t" and "tooShort t"
  shows "feedbackHandler fmt s2n w file files =
           \<lparr>response = Json 400 (failure (''Could not extract sufficient text from the resume. '' @
                        ''Please ensure the file is readable and try again.'')),
            llmCalls = [], filesAfter = cleanup w (path file) files\<rparr>"
  using assms by (simp add: feedbackHandler_def analyze_def tooShort_message)

lemma feedback_extract_throws:
  assumes "extractText w file = Inl e"
  shows "feedbackHandler fmt s2n w file files =
           \<lparr>response = errorResponse e, llmCalls = [],
            filesAfter = cleanup w (path file) files\<rparr>"
  using assms by (simp add: feedbackHandler_def analyze_def)

lemma processPdf_nothing_usable:
  assumes "readFileSync w p = Inr b" and "tesseract_recognize w p = Inr t"
    and "fst (processPdf_spec w p) = None"
  shows "fst (processPdf w p) = Inl (Error (ascii ''PDF could not be processed by any method''))"
  using assms
  by (auto simp: processPdf_def processPdf_spec_def tryTesseract_def Let_def usable_iff
      trim_Nil split: sum.splits if_splits)

lemma processPdf_returns_usable:
  "fst (processPdf w p) = Inr t \<Longrightarrow> usable t"
  by (auto simp: processPdf_def tryTesseract_def Let_def split: sum.splits if_splits)

text \<open>
  The check of line 231 never fires for a PDF: what \<open>processPdf\<close> returns has a trimmed
  length above 50.
\<close>

lemma pdf_text_never_short:
  assumes "mimetype file = ascii ''application/pdf''" and "extractText w file = Inr t"
  shows "\<not> tooShort t"
proof -
  from assms obtain s where "t = Some s" "fst (processPdf w (path file)) = Inr s"
    by (auto simp: extractText_def split: sum.splits)
  with processPdf_returns_usable [of w "path file" s] show ?thesis
    by (simp add: usable_def)
qed

text \<open>
  A text that is not there or too short, returned by the extraction (a DOCX or a
  plain-text upload), is answered with 400, and the model is not called.
\<close>

lemma feedback_text_too_short:
  assumes "extractText w file = Inr t" and "tooShort t"
  shows "response (feedbackHandler fmt s2n w file files) =
           Json 400 (failure (''Could not extract sufficient text from the resume. '' @
                              ''Please ensure the file is readable and try again.'')) \<and>
         llmCalls (feedbackHandler fmt s2n w file files) = []"
  using feedback_short [OF assms] by simp

text \<open>
  A PDF that can be read, on which the OCR returns, and from which no extractor gets a
  text of trimmed length above 50, is answered with 500, and the model is not called.
\<close>

lemma feedback_pdf_nothing_usable:
  assumes "mimetype file = ascii ''application/pdf''"
    and "readFileSync w (path file) = Inr b"
    and "tesseract_recognize w (path file) = Inr t"
    and "\<not> produces (outputOf w (path file) PdfParse)"
    and "\<not> produces (outputOf w (path file) PdfToText)"
    and "\<not> produces (outputOf w (path file) Tesseract)"
  shows "response (feedbackHandler fmt s2n w file files) =
           Json 500 (failureWith ''Failed to analyze resume: ''
                       (ascii ''PDF could not be processed by any method'')) \<and>
         llmCalls (feedbackHandler fmt s2n w file files) = []"
proof -
  from assms(4,5,6) have "fst (processPdf_spec w (path file)) = None"
    by (simp add: processPdf_spec_def)
  from processPdf_nothing_usable [OF assms(2,3) this] assms(1)
  have "extractText w file =
          Inl (Error (ascii ''PDF could not be processed by any method''))"
    by (simp add: extractText_def)
  from feedback_extract_throws [OF this] show ?thesis
    by (simp add: unprocessable_message)
qed

text \<open>
  C5. The handler should answer 400 with \<open>success: false\<close>, without calling the language
  model, whenever the extracted text is not there or has a trimmed length below 50. It
  does so for a plain-text upload that reads \<open>Jane Doe\<close>. For a PDF that can be read,
  in which pdf-parse and pdftotextjs find no text and the OCR reads the same eight
  characters, \<open>processPdf\<close> throws \<open>PDF could not be processed by any method\<close>; that
  message has neither \<open>short\<close> nor \<open>extract\<close> in it, so the \<open>catch\<close> misses its 400
  branch and the handler answers 500. The model is called in neither case.
\<close>

theorem feedback_scanned_pdf_500:
  "outputOf (failingWorld\<lparr>readFileSync := \<lambda>p. Inr [], pdfParse := \<lambda>b. Inr [],
       pdftotext_getText := \<lambda>p. Inr [],
       tesseract_recognize := \<lambda>p. Inr (ascii ''Jane Doe'')\<rparr>) (path pdfUpload) PdfParse
     = Some [] \<and>
   outputOf (failingWorld\<lparr>readFileSync := \<lambda>p. Inr [], pdfParse := \<lambda>b. Inr [],
       pdftotext_getText := \<lambda>p. Inr [],
       tesseract_recognize := \<lambda>p. Inr (ascii ''Jane Doe'')\<rparr>) (path pdfUpload) PdfToText
     = Some [] \<and>
   outputOf (failingWorld\<lparr>readFileSync := \<lambda>p. Inr [], pdfParse := \<lambda>b. Inr [],
       pdftotext_getText := \<lambda>p. Inr [],
       tesseract_recognize := \<lambda>p. Inr (ascii ''Jane Doe'')\<rparr>) (path pdfUpload) Tesseract
     = Some (ascii ''Jane Doe'') \<and>
   tooShort (Some []) \<and> tooShort (Some (ascii ''Jane Doe'')) \<and>
   response (feedbackHandler (\<lambda>q. []) (\<lambda>s. NaN)
     (failingWorld\<lparr>readFileSync := \<lambda>p. Inr [], pdfParse := \<lambda>b. Inr [],
       pdftotext_getText := \<lambda>p. Inr [],
       tesseract_recognize := \<lambda>p. Inr (ascii ''Jane Doe'')\<rparr>) pdfUpload
     {ascii ''uploads/1-cv.pdf''}) =
     Json 500 (failureWith ''Failed to analyze resume: ''
                 (ascii ''PDF could not be processed by any method'')) \<and>
   llmCalls (feedbackHandler (\<lambda>q. []) (\<lambda>s. NaN)
     (failingWorld\<lparr>readFileSync := \<lambda>p. Inr [], pdfParse := \<lambda>b. Inr [],
       pdftotext_getText := \<lambda>p. Inr [],
       tesseract_recognize := \<lambda>p. Inr (ascii ''Jane Doe'')\<rparr>) pdfUpload
     {ascii ''uploads/1-cv.pdf''}) = [] \<and>
   response (feedbackHandler (\<lambda>q. []) (\<lambda>s. NaN)
     (failingWorld\<lparr>readTextFile := \<lambda>p. Inr (ascii ''Jane Doe'')\<rparr>) textUpload
     {ascii ''uploads/2-cv.txt''}) =
     Json 400 (failure (''Could not extract sufficient text from the resume. '' @
                        ''Please ensure the file is readable and try again.'')) \<and>
   llmCalls (feedbackHandler (\<lambda>q. []) (\<lambda>s. NaN)
     (failingWorld\<lparr>readTextFile := \<lambda>p. Inr (ascii ''Jane Doe'')\<rparr>) textUpload
     {ascii ''uploads/2-cv.txt''}) = []"
proof -
  let ?w = "failingWorld\<lparr>readFileSync := \<lambda>p. Inr [], pdfParse := \<lambda>b. Inr [],
       pdftotext_getText := \<lambda>p. Inr [],
       tesseract_recognize := \<lambda>p. Inr (ascii ''Jane Doe'')\<rparr>"
  let ?v = "failingWorld\<lparr>readTextFile := \<lambda>p. Inr (ascii ''Jane Doe'')\<rparr>"
  have t: "trim (ascii ''Jane Doe'') = ascii ''Jane Doe''"
    by (simp add: trim_def ascii_def isWhiteSpace_def)
  have s: "tooShort (Some (ascii ''Jane Doe''))" by (simp add: t) (simp add: ascii_def)
  have o: "outputOf ?w (path pdfUpload) PdfParse = Some []"
    "outputOf ?w (path pdfUpload) PdfToText = Some []"
    "outputOf ?w (path pdfUpload) Tesseract = Some (ascii ''Jane Doe'')"
    by simp_all
  have m: "mimetype pdfUpload = ascii ''application/pdf''" by (simp add: pdfUpload_def)
  have r: "readFileSync ?w (path pdfUpload) = Inr []"
    "tesseract_recognize ?w (path pdfUpload) = Inr (ascii ''Jane Doe'')"
    by simp_all
  have n: "\<not> produces (outputOf ?w (path pdfUpload) PdfParse)"
    "\<not> produces (outputOf ?w (path pdfUpload) PdfToText)"
    "\<not> produces (outputOf ?w (path pdfUpload) Tesseract)"
    by (simp_all add: trim_Nil t) (simp add: ascii_def)
  note p = feedback_pdf_nothing_usable [OF m r n, of "\<lambda>q. []" "\<lambda>s. NaN" "{ascii ''uploads/1-cv.pdf''}"]
  have e: "extractText ?v textUpload = Inr (Some (ascii ''Jane Doe''))"
    by (simp add: extractText_def textUpload_def processTextFile_def ascii_def)
  note q = feedback_text_too_short [OF e s, of "\<lambda>q. []" "\<lambda>s. NaN" "{ascii ''uploads/2-cv.txt''}"]
  from o s p q show ?thesis by (simp add: trim_Nil)
qed

section \<open>The uploaded file after the feedback handler\<close>

lemma filesAfter_feedbackHandler:
  "filesAfter (feedbackHandler fmt s2n w file files) = cleanup w (path file) files"
  by (simp add: feedbackHandler_def split: prod.splits)

text \<open>
  C6, as the code has it. Whether the request succeeds or fails, the handler ends by
  calling \<open>unlinkSync\<close> on the stored file if it still exists, so the file is gone when
  the handler finishes, unless \<open>unlinkSync\<close> itself throws: then the error is logged
  and the file stays.
\<close>

theorem feedback_cleanup:
  "filesAfter (feedbackHandler fmt s2n w file files) =
     (if path file \<noteq> [] \<and> unlinkSync_error w (path file) = None
      then files - {path file} else files) \<and>
   (path file \<noteq> [] \<longrightarrow> unlinkSync_error w (path file) = None \<longrightarrow>
      path file \<notin> filesAfter (feedbackHandler fmt s2n w file files)) \<and>
   (\<forall>cleanupError. path file \<in> files \<longrightarrow>
      unlinkSync_error w (path file) = Some cleanupError \<longrightarrow>
      path file \<in> filesAfter (feedbackHandler fmt s2n w file files))"
  by (auto simp: filesAfter_feedbackHandler cleanup_def split: option.splits)

theorem feedback_cleanup_witness:
  "path textUpload \<noteq> [] \<and> unlinkSync_error failingWorld (path textUpload) = None \<and>
   status (response (feedbackHandler (\<lambda>q. []) (\<lambda>s. NaN) failingWorld textUpload
     {ascii ''uploads/2-cv.txt'', ascii ''uploads/1-cv.pdf''})) = 500 \<and>
   filesAfter (feedbackHandler (\<lambda>q. []) (\<lambda>s. NaN) failingWorld textUpload
     {ascii ''uploads/2-cv.txt'', ascii ''uploads/1-cv.pdf''}) = {ascii ''uploads/1-cv.pdf''}"
proof -
  have p: "path textUpload \<noteq> []" "unlinkSync_error failingWorld (path textUpload) = None"
    by (simp_all add: textUpload_def failingWorld_def ascii_def)
  have e: "extractText failingWorld textUpload =
     Inl (Error (ascii ''Text file processing failed: '' @ ascii ''EACCES: permission denied''))"
    by (simp add: extractText_def textUpload_def processTextFile_def failingWorld_def)
       (simp add: ascii_def)
  have s: "status (response (feedbackHandler (\<lambda>q. []) (\<lambda>s. NaN) failingWorld textUpload
     {ascii ''uploads/2-cv.txt'', ascii ''uploads/1-cv.pdf''})) = 500"
    by (simp add: feedbackHandler_def analyze_def e) (simp add: errorResponse_def ascii_def)
  have d: "{ascii ''uploads/2-cv.txt'', ascii ''uploads/1-cv.pdf''} - {path textUpload} =
           {ascii ''uploads/1-cv.pdf''}"
    by (simp add: textUpload_def ascii_def)
  from feedback_cleanup [of "\<lambda>q. []" "\<lambda>s. NaN" failingWorld textUpload
      "{ascii ''uploads/2-cv.txt'', ascii ''uploads/1-cv.pdf''}"] p s d
  show ?thesis by simp
qed

text \<open>
  C6 as the specification states it fails when \<open>unlinkSync\<close> throws: the \<open>catch\<close> in
  the \<open>finally\<close> block swallows the error and the file is still there.
\<close>

theorem feedback_cleanup_counterexample:
  "path textUpload \<in>
     filesAfter (feedbackHandler (\<lambda>q. []) (\<lambda>s. NaN)
       (failingWorld\<lparr>unlinkSync_error :=
          \<lambda>p. Some (Error (ascii ''EPERM: operation not permitted, unlink''))\<rparr>)
       textUpload {ascii ''uploads/2-cv.txt''})"
  by (simp add: filesAfter_feedbackHandler cleanup_def textUpload_def failingWorld_def)


section \<open>Which handlers coerce the reply of the language model\<close>















end
